theory Spec2Isabelle
  imports Main "HOL-Library.AList" "HOL-Library.Sublist"
begin

section \<open>Python values of the settings\<close>

text \<open>
  The ETL parameters of \<^verbatim>\<open>pudl/etl_pkg.py\<close> are read from a YAML settings file:
  dictionaries with string keys whose values are \<^verbatim>\<open>None\<close>, booleans, integers, strings,
  lists and dictionaries. A dictionary is an association list in insertion order
  (lookup takes the first entry of a key, an update replaces it in place or appends it).
  Floating point values are left out. A character of a string is a code point below
  256 (Latin-1).
\<close>

datatype pyval =
    PNone
  | PBool bool
  | PInt int
  | PStr string
  | PList "pyval list"
  | PDict "(string \<times> pyval) list"

type_synonym dict = "(string \<times> pyval) list"

text \<open>
  The exceptions the module can raise. \<open>CollaboratorError\<close> stands for any exception
  raised by code outside this module: extraction, transformation and loading, and the
  file system calls of \<^verbatim>\<open>_prep_directories\<close>.
\<close>

datatype error =
    KeyError pyval
  | TypeError
  | AttributeError
  | IndexError
  | AssertionError string
  | CollaboratorError string

subsection \<open>Truth value, equality, hashing\<close>

fun truthy :: "pyval \<Rightarrow> bool" where
  "truthy PNone = False"
| "truthy (PBool b) = b"
| "truthy (PInt i) = (i \<noteq> 0)"
| "truthy (PStr s) = (s \<noteq> [])"
| "truthy (PList xs) = (xs \<noteq> [])"
| "truthy (PDict d) = (d \<noteq> [])"

fun hashable :: "pyval \<Rightarrow> bool" where
  "hashable (PList xs) = False"
| "hashable (PDict d) = False"
| "hashable v = True"

text \<open>
  Python's \<^verbatim>\<open>==\<close>: \<^verbatim>\<open>True == 1\<close> and \<^verbatim>\<open>False == 0\<close>; lists compare elementwise,
  dictionaries as finite maps.
\<close>

fun py_eq :: "pyval \<Rightarrow> pyval \<Rightarrow> bool"
  and py_eq_list :: "pyval list \<Rightarrow> pyval list \<Rightarrow> bool"
  and py_sub_dict :: "dict \<Rightarrow> dict \<Rightarrow> bool" where
  "py_eq PNone w = (w = PNone)"
| "py_eq (PBool a) w =
     (case w of PBool b \<Rightarrow> a = b | PInt j \<Rightarrow> (if a then 1 else 0) = j | _ \<Rightarrow> False)"
| "py_eq (PInt i) w =
     (case w of PBool b \<Rightarrow> i = (if b then 1 else 0) | PInt j \<Rightarrow> i = j | _ \<Rightarrow> False)"
| "py_eq (PStr s) w = (w = PStr s)"
| "py_eq (PList xs) w = (case w of PList ys \<Rightarrow> py_eq_list xs ys | _ \<Rightarrow> False)"
| "py_eq (PDict d) w =
     (case w of PDict d' \<Rightarrow>
        py_sub_dict d d' \<and> list_all (\<lambda>k. map_of d k \<noteq> None) (map fst d')
      | _ \<Rightarrow> False)"
| "py_eq_list [] ys = (ys = [])"
| "py_eq_list (x # xs) ys =
     (case ys of [] \<Rightarrow> False | y # ys' \<Rightarrow> py_eq x y \<and> py_eq_list xs ys')"
| "py_sub_dict [] d' = True"
| "py_sub_dict (kv # d) d' =
     ((case map_of d' (fst kv) of None \<Rightarrow> False | Some v' \<Rightarrow> py_eq (snd kv) v')
      \<and> py_sub_dict d d')"

subsection \<open>Subscripts, membership, iteration\<close>

text \<open>\<^verbatim>\<open>v[key]\<close> with a string key: only a dictionary accepts it.\<close>

fun py_getitem :: "pyval \<Rightarrow> string \<Rightarrow> error + pyval" where
  "py_getitem (PDict d) k =
     (case map_of d k of None \<Rightarrow> Inl (KeyError (PStr k)) | Some v \<Rightarrow> Inr v)"
| "py_getitem v k = Inl TypeError"

text \<open>\<^verbatim>\<open>v[key] = x\<close> with a string key.\<close>

fun py_setitem :: "pyval \<Rightarrow> string \<Rightarrow> pyval \<Rightarrow> error + pyval" where
  "py_setitem (PDict d) k x = Inr (PDict (AList.update k x d))"
| "py_setitem v k x = Inl TypeError"

text \<open>\<^verbatim>\<open>v[0]\<close>: the dictionaries here have string keys only, so \<^verbatim>\<open>0\<close> is never a key.\<close>

fun py_getitem0 :: "pyval \<Rightarrow> error + pyval" where
  "py_getitem0 (PList xs) = (case xs of [] \<Rightarrow> Inl IndexError | x # _ \<Rightarrow> Inr x)"
| "py_getitem0 (PStr s) = (case s of [] \<Rightarrow> Inl IndexError | c # _ \<Rightarrow> Inr (PStr [c]))"
| "py_getitem0 (PDict d) = Inl (KeyError (PInt 0))"
| "py_getitem0 v = Inl TypeError"

text \<open>\<^verbatim>\<open>x in keys\<close> for the key view of a dictionary with string keys.\<close>

definition py_in_keys :: "pyval \<Rightarrow> string list \<Rightarrow> error + bool" where
  "py_in_keys x ks =
     (if \<not> hashable x then Inl TypeError
      else Inr (case x of PStr s \<Rightarrow> s \<in> set ks | _ \<Rightarrow> False))"

text \<open>\<^verbatim>\<open>x in seq\<close> for a list or tuple: some element equals \<open>x\<close>.\<close>

definition py_in_seq :: "pyval \<Rightarrow> pyval list \<Rightarrow> bool" where
  "py_in_seq x ys = list_ex (py_eq x) ys"

fun py_in :: "pyval \<Rightarrow> pyval \<Rightarrow> error + bool" where
  "py_in x (PList ys) = Inr (py_in_seq x ys)"
| "py_in x (PStr s) = (case x of PStr t \<Rightarrow> Inr (sublist t s) | _ \<Rightarrow> Inl TypeError)"
| "py_in x (PDict d) = py_in_keys x (map fst d)"
| "py_in x v = Inl TypeError"

text \<open>\<^verbatim>\<open>for x in v\<close>: the elements of a list, the characters of a string, the keys of a
  dictionary; anything else is not iterable.\<close>

fun py_iter :: "pyval \<Rightarrow> error + pyval list" where
  "py_iter (PList xs) = Inr xs"
| "py_iter (PStr s) = Inr (map (\<lambda>c. PStr [c]) s)"
| "py_iter (PDict d) = Inr (map (\<lambda>kv. PStr (fst kv)) d)"
| "py_iter v = Inl TypeError"

text \<open>\<^verbatim>\<open>v.lower()\<close>: only strings have the method. Below 256 the letters with a
  lower case are \<^verbatim>\<open>A\<close> to \<^verbatim>\<open>Z\<close> and the code points 192 to 222 except 215, each 32 below
  its lower case.\<close>

definition lower_char :: "char \<Rightarrow> char" where
  "lower_char c =
     (let n = (of_char c :: nat)
      in if (65 \<le> n \<and> n \<le> 90) \<or> (192 \<le> n \<and> n \<le> 222 \<and> n \<noteq> 215) then char_of (n + 32)
         else c)"

fun py_lower :: "pyval \<Rightarrow> error + pyval" where
  "py_lower (PStr s) = Inr (PStr (map lower_char s))"
| "py_lower v = Inl AttributeError"

text \<open>\<^verbatim>\<open>try: d[k] = etl_params[k]  except KeyError: d[k] = default\<close>\<close>

definition get_or :: "dict \<Rightarrow> string \<Rightarrow> pyval \<Rightarrow> pyval" where
  "get_or etl_params k dflt = (case map_of etl_params k of None \<Rightarrow> dflt | Some v \<Rightarrow> v)"

text \<open>Sequencing of computations that may raise.\<close>

definition ebind :: "error + 'a \<Rightarrow> ('a \<Rightarrow> error + 'b) \<Rightarrow> error + 'b" where
  "ebind m f = (case m of Inl e \<Rightarrow> Inl e | Inr x \<Rightarrow> f x)"

subsection \<open>Formatting\<close>

text \<open>
  \<^verbatim>\<open>str(v)\<close> as an f-string inserts it: a string is itself, every other value is printed
  as \<^verbatim>\<open>repr\<close> prints it. In the \<^verbatim>\<open>repr\<close> of a string the backslash, the quote, and the
  code points that are not printable (below 32, 127 to 160, and 173) are escaped.
\<close>

definition digit_char :: "nat \<Rightarrow> char" where
  "digit_char n = char_of (48 + n)"

fun nat_digits :: "nat \<Rightarrow> string" where
  "nat_digits n = (if n < 10 then [digit_char n] else nat_digits (n div 10) @ [digit_char (n mod 10)])"

declare nat_digits.simps [simp del]

definition int_str :: "int \<Rightarrow> string" where
  "int_str i = (if i < 0 then CHR ''-'' # nat_digits (nat (- i)) else nat_digits (nat i))"

definition hex_char :: "nat \<Rightarrow> char" where
  "hex_char n = (if n < 10 then char_of (48 + n) else char_of (87 + n))"

definition repr_char :: "char \<Rightarrow> char \<Rightarrow> string" where
  "repr_char q c =
     (let n = (of_char c :: nat) in
      if c = CHR 0x5C then [CHR 0x5C, CHR 0x5C]
      else if c = q then [CHR 0x5C, q]
      else if c = CHR 0x0A then [CHR 0x5C, CHR ''n'']
      else if c = CHR 0x0D then [CHR 0x5C, CHR ''r'']
      else if c = CHR 0x09 then [CHR 0x5C, CHR ''t'']
      else if n < 32 \<or> (127 \<le> n \<and> n \<le> 160) \<or> n = 173
           then [CHR 0x5C, CHR ''x'', hex_char (n div 16), hex_char (n mod 16)]
      else [c])"

definition repr_str :: "string \<Rightarrow> string" where
  "repr_str s =
     (let q = (if CHR 0x27 \<in> set s \<and> CHR 0x22 \<notin> set s then CHR 0x22 else CHR 0x27)
      in q # concat (map (repr_char q) s) @ [q])"

fun join_comma :: "string list \<Rightarrow> string" where
  "join_comma [] = []"
| "join_comma [x] = x"
| "join_comma (x # y # zs) = x @ '', '' @ join_comma (y # zs)"

fun py_repr :: "pyval \<Rightarrow> string"
  and py_repr_list :: "pyval list \<Rightarrow> string list"
  and py_repr_items :: "dict \<Rightarrow> string list" where
  "py_repr PNone = ''None''"
| "py_repr (PBool b) = (if b then ''True'' else ''False'')"
| "py_repr (PInt i) = int_str i"
| "py_repr (PStr s) = repr_str s"
| "py_repr (PList xs) = ''['' @ join_comma (py_repr_list xs) @ '']''"
| "py_repr (PDict d) = ''{'' @ join_comma (py_repr_items d) @ ''}''"
| "py_repr_list [] = []"
| "py_repr_list (x # xs) = py_repr x # py_repr_list xs"
| "py_repr_items [] = []"
| "py_repr_items (kv # d) = (repr_str (fst kv) @ '': '' @ py_repr (snd kv)) # py_repr_items d"

definition py_str :: "pyval \<Rightarrow> string" where
  "py_str v = (case v of PStr s \<Rightarrow> s | _ \<Rightarrow> py_repr v)"

section \<open>The constants of \<^verbatim>\<open>pudl.constants\<close>\<close>

text \<open>
  The module \<^verbatim>\<open>pudl.constants\<close> (imported as \<^verbatim>\<open>pc\<close>) is not part of the sources at hand,
  so the values this module reads from it are parameters: the default table lists
  \<^verbatim>\<open>pc.pudl_tables[...]\<close>, the universes of tables \<^verbatim>\<open>pc.eia860_pudl_tables\<close>,
  \<^verbatim>\<open>pc.eia923_pudl_tables\<close>, \<^verbatim>\<open>pc.ferc1_pudl_tables\<close>, the universes of years
  \<^verbatim>\<open>pc.working_years[...]\<close>, the keys of \<^verbatim>\<open>pc.cems_states\<close> and the table name
  \<^verbatim>\<open>pc.epacems_tables\<close>. The universes are sequences, tested with \<^verbatim>\<open>in\<close>.
\<close>

record constants =
  pudl_tables_eia860 :: "string list"
  pudl_tables_eia923 :: "string list"
  pudl_tables_ferc1 :: "string list"
  eia860_pudl_tables :: "string list"
  eia923_pudl_tables :: "string list"
  ferc1_pudl_tables :: "string list"
  working_years_eia860 :: "int list"
  working_years_eia923 :: "int list"
  cems_states :: "string list"
  epacems_tables :: string

section \<open>Validation of the ETL parameters\<close>

text \<open>
  Isabelle names cannot start with an underscore: \<^verbatim>\<open>_validate_input_eia\<close> is
  \<open>validate_input_eia\<close> here, and so on for every private function of the module.
\<close>

subsection \<open>\<^verbatim>\<open>_validate_input_partition\<close>\<close>

text \<open>The loop over \<^verbatim>\<open>tables\<close> inside the \<^verbatim>\<open>try\<close> block.\<close>

fun partition_check :: "dict \<Rightarrow> pyval \<Rightarrow> string list \<Rightarrow> error + unit" where
  "partition_check etl_params_og partition_dict [] = Inr ()"
| "partition_check etl_params_og partition_dict (t # ts) =
     (case py_getitem partition_dict t of
        Inl e \<Rightarrow> Inl e
      | Inr v \<Rightarrow>
          (case py_in_keys v (map fst etl_params_og) of
             Inl e \<Rightarrow> Inl e
           | Inr found \<Rightarrow>
               if \<not> found then Inl (AssertionError ''Partion not recognized'')
               else partition_check etl_params_og partition_dict ts))"

text \<open>
  A \<^verbatim>\<open>KeyError\<close> from the lookup of \<^verbatim>\<open>'partition'\<close> or from the loop is caught, and the
  handler stores \<^verbatim>\<open>None\<close> under \<^verbatim>\<open>'partition'\<close> in the dictionary bound at that moment;
  every other exception propagates.
\<close>

definition validate_input_partition :: "dict \<Rightarrow> string list \<Rightarrow> error + pyval" where
  "validate_input_partition etl_params_og tables =
     (case map_of etl_params_og ''partition'' of
        None \<Rightarrow> py_setitem (PDict []) ''partition'' PNone
      | Some partition_dict \<Rightarrow>
          (case partition_check etl_params_og partition_dict tables of
             Inl (KeyError k) \<Rightarrow> py_setitem partition_dict ''partition'' PNone
           | Inl e \<Rightarrow> Inl e
           | Inr u \<Rightarrow> Inr partition_dict))"

subsection \<open>\<^verbatim>\<open>_validate_input_eia\<close>\<close>

text \<open>\<^verbatim>\<open>for x in xs: if x not in universe: raise AssertionError(f"{pre}{x}{post}")\<close>\<close>

fun check_members :: "pyval list \<Rightarrow> pyval list \<Rightarrow> string \<Rightarrow> string \<Rightarrow> error + unit" where
  "check_members [] universe pre post = Inr ()"
| "check_members (x # xs) universe pre post =
     (if \<not> py_in_seq x universe then Inl (AssertionError (pre @ py_str x @ post))
      else check_members xs universe pre post)"

definition check_all :: "pyval \<Rightarrow> pyval list \<Rightarrow> string \<Rightarrow> string \<Rightarrow> error + unit" where
  "check_all v universe pre post =
     ebind (py_iter v) (\<lambda>xs. check_members xs universe pre post)"

definition eia923_minimal_tables :: pyval where
  "eia923_minimal_tables = PList [PStr ''boiler_fuel_eia923'', PStr ''generation_eia923'']"

definition validate_input_eia :: "constants \<Rightarrow> dict \<Rightarrow> error + pyval" where
  "validate_input_eia pc etl_params =
     (let eia860_years0 = get_or etl_params ''eia860_years'' (PList []);
          eia860_tables = get_or etl_params ''eia860_tables'' (PList (map PStr (pudl_tables_eia860 pc)));
          eia923_years0 = get_or etl_params ''eia923_years'' (PList []);
          eia923_tables0 = get_or etl_params ''eia923_tables'' (PList (map PStr (pudl_tables_eia923 pc)));
          only860 = (\<not> truthy eia923_years0 \<and> truthy eia860_years0);
          eia923_years = (if only860 then eia860_years0 else eia923_years0);
          eia923_tables = (if only860 then eia923_minimal_tables else eia923_tables0);
          eia860_years = (if \<not> truthy eia860_years0 \<and> truthy eia923_years then eia923_years
                          else eia860_years0)
      in
      ebind (if truthy eia860_tables
             then check_all eia860_tables (map PStr (eia860_pudl_tables pc))
                    ''Unrecognized EIA 860 table: '' []
             else Inr ()) (\<lambda>_.
      ebind (if truthy eia923_tables
             then check_all eia923_tables (map PStr (eia923_pudl_tables pc))
                    ''Unrecogized EIA 923 table: '' []
             else Inr ()) (\<lambda>_.
      ebind (check_all eia860_years (map PInt (working_years_eia860 pc))
               ''Unrecognized EIA 860 year: '' []) (\<lambda>_.
      ebind (check_all eia923_years (map PInt (working_years_eia923 pc))
               ''Unrecognized EIA 923 year: '' []) (\<lambda>_.
      if \<not> truthy eia923_years \<and> \<not> truthy eia860_years then Inr PNone
      else Inr (PDict [(''eia860_years'', eia860_years), (''eia860_tables'', eia860_tables),
                       (''eia923_years'', eia923_years), (''eia923_tables'', eia923_tables)]))))))"

subsection \<open>\<^verbatim>\<open>_validate_input_ferc1\<close>\<close>

definition validate_input_ferc1 :: "constants \<Rightarrow> dict \<Rightarrow> error + pyval" where
  "validate_input_ferc1 pc etl_params =
     (let ferc1_years = get_or etl_params ''ferc1_years'' (PList [PNone]);
          ferc1_tables = get_or etl_params ''ferc1_tables'' (PList (map PStr (pudl_tables_ferc1 pc)));
          ferc1_testing = get_or etl_params ''ferc1_testing'' (PBool False);
          debug = get_or etl_params ''debug'' (PBool False)
      in
      ebind (if \<not> truthy debug \<and> truthy ferc1_tables
             then check_all ferc1_tables (map PStr (ferc1_pudl_tables pc))
                    ''Unrecognized FERC table: '' ''.''
             else Inr ()) (\<lambda>_.
      if \<not> truthy ferc1_years then Inr (PDict [])
      else Inr (PDict [(''ferc1_years'', ferc1_years), (''ferc1_tables'', ferc1_tables),
                       (''ferc1_testing'', ferc1_testing), (''debug'', debug)])))"

subsection \<open>\<^verbatim>\<open>_validate_input_epacems\<close>\<close>

definition no_partition_message :: string where
  "no_partition_message =
     ''No partition found for EPA CEMS. EPA CEMS requires either states or years as a partion''"

definition validate_input_epacems :: "constants \<Rightarrow> dict \<Rightarrow> error + pyval" where
  "validate_input_epacems pc etl_params =
     (let epacems_years = get_or etl_params ''epacems_years'' (PList [PNone]);
          epacems_states0 = get_or etl_params ''epacems_states'' (PList [])
      in
      ebind (if truthy epacems_states0
             then ebind (py_getitem0 epacems_states0) (\<lambda>first.
                  ebind (py_lower first) (\<lambda>lowered.
                  Inr (if py_eq lowered (PStr ''all'') then PList (map PStr (cems_states pc))
                       else epacems_states0)))
             else Inr epacems_states0) (\<lambda>epacems_states.
      ebind (validate_input_partition etl_params [epacems_tables pc]) (\<lambda>partition.
      if \<not> truthy partition then Inl (AssertionError no_partition_message)
      else if \<not> truthy epacems_years \<or> \<not> truthy epacems_states then Inr PNone
      else Inr (PDict [(''epacems_years'', epacems_years), (''epacems_states'', epacems_states),
                       (''partition'', partition)]))))"

subsection \<open>\<^verbatim>\<open>_validate_input_epaipm\<close> and \<^verbatim>\<open>_validate_input_glue\<close>\<close>

definition validate_input_epaipm :: "dict \<Rightarrow> error + pyval" where
  "validate_input_epaipm etl_params =
     Inr (PDict [(''epaipm_tables'', get_or etl_params ''epaipm_tables'' (PList [PNone]))])"

definition validate_input_glue :: "dict \<Rightarrow> error + pyval" where
  "validate_input_glue etl_params =
     (let ferc1 = get_or etl_params ''ferc1'' (PBool False);
          eia = get_or etl_params ''eia'' (PBool False)
      in if \<not> truthy ferc1 \<and> \<not> truthy eia then Inr (PDict [])
         else Inr (PDict [(''ferc1'', ferc1), (''eia'', eia)]))"

section \<open>Collaborators and effects\<close>

text \<open>
  Extraction, transformation and loading live in other modules (\<^verbatim>\<open>pudl.extract\<close>,
  \<^verbatim>\<open>pudl.transform\<close>, \<^verbatim>\<open>pudl.glue\<close>, \<^verbatim>\<open>pudl.load\<close>) that are not part of the sources
  at hand. Each call into them is a parameter that returns a value or raises. Raw data
  and data frames are opaque: a natural number names one. A dictionary of data frames
  is an association list from table names to data frames. Directory arguments
  (\<^verbatim>\<open>data_dir\<close>, \<^verbatim>\<open>pkg_dir\<close>) are left out.
\<close>

type_synonym raw = nat
type_synonym dataframe = nat
type_synonym tables = "(string \<times> dataframe) list"

text \<open>
  \<open>epacems_chunks\<close> stands for the two nested generators of the EPA CEMS path
  (\<^verbatim>\<open>pudl.extract.epacems.extract\<close> consumed by \<^verbatim>\<open>pudl.transform.epacems.transform_pkg\<close>):
  given the years and states they are created with, it is the finite sequence of what
  the transformed generator does each time the loop asks for the next item: yield a
  dictionary of data frames (\<open>Inr\<close>), or raise (\<open>Inl\<close>, after which nothing more is asked).
  \<open>loader_add\<close> tells whether \<^verbatim>\<open>loader.add(df)\<close> raises, and \<open>reset_directory\<close> whether
  the file system calls of \<^verbatim>\<open>_prep_directories\<close> (\<^verbatim>\<open>shutil.rmtree\<close>, \<^verbatim>\<open>os.mkdir\<close>) raise for a
  package directory.
\<close>

record collaborators =
  extract_eia923 :: "pyval \<Rightarrow> error + raw"
  extract_eia860 :: "pyval \<Rightarrow> error + raw"
  transform_eia923 :: "raw \<Rightarrow> pyval \<Rightarrow> error + tables"
  transform_eia860 :: "raw \<Rightarrow> pyval \<Rightarrow> error + tables"
  transform_eia :: "tables \<Rightarrow> pyval \<Rightarrow> pyval \<Rightarrow> error + (tables \<times> tables)"
  extract_ferc1 :: "pyval \<Rightarrow> pyval \<Rightarrow> pyval \<Rightarrow> error + raw"
  transform_ferc1 :: "raw \<Rightarrow> pyval \<Rightarrow> error + tables"
  epacems_chunks :: "pyval \<Rightarrow> pyval \<Rightarrow> (error + tables) list"
  loader_add :: "string \<Rightarrow> dataframe \<Rightarrow> error option"
  extract_epaipm :: "pyval \<Rightarrow> error + raw"
  transform_epaipm :: "raw \<Rightarrow> pyval \<Rightarrow> error + tables"
  glue_ferc1_eia :: "pyval \<Rightarrow> pyval \<Rightarrow> error + tables"
  reset_directory :: "string \<Rightarrow> error option"

text \<open>
  What the module does to the outside is recorded as a trace of events, oldest first:
  a bulk write \<^verbatim>\<open>pudl.load.dict_dump(dfs, label, ...)\<close> with its label and the names of
  the tables written, the three steps of a writer session, and the reset of a package
  directory.
\<close>

datatype event =
    DictDump string "string list"
  | SessionOpen string
  | SessionAdd string dataframe
  | SessionClose string
  | PrepDirectories string

text \<open>A computation takes the trace so far and returns a value or an exception, and
  the trace extended by what it did (also when it raises).\<close>

type_synonym 'a prog = "event list \<Rightarrow> (error + 'a) \<times> event list"

definition preturn :: "'a \<Rightarrow> 'a prog" where
  "preturn x = (\<lambda>s. (Inr x, s))"

definition praise :: "error \<Rightarrow> 'a prog" where
  "praise e = (\<lambda>s. (Inl e, s))"

definition plift :: "error + 'a \<Rightarrow> 'a prog" where
  "plift r = (\<lambda>s. (r, s))"

definition pbind :: "'a prog \<Rightarrow> ('a \<Rightarrow> 'b prog) \<Rightarrow> 'b prog" where
  "pbind m f = (\<lambda>s. case m s of (Inl e, s') \<Rightarrow> (Inl e, s') | (Inr x, s') \<Rightarrow> f x s')"

definition emit :: "event \<Rightarrow> unit prog" where
  "emit ev = (\<lambda>s. (Inr (), s @ [ev]))"

text \<open>
  Modelled from the spec: \<^verbatim>\<open>pudl.load.dict_dump\<close>, whose code is missing, is a durable
  bulk write of every table of the dictionary under a label.
\<close>

definition dict_dump :: "tables \<Rightarrow> string \<Rightarrow> unit prog" where
  "dict_dump dfs label = emit (DictDump label (map fst dfs))"

text \<open>
  Modelled from the spec: \<^verbatim>\<open>pudl.load.BulkCopyPkg\<close>, whose code is missing, is the scoped
  streaming session of the writer: entering it opens the session for one table name
  (taken to succeed), leaving it releases the session and lets an exception of the body
  pass. The statement \<^verbatim>\<open>with BulkCopyPkg(table_name=..., pkg_dir=...) as loader: body\<close>
  is Python's: the exit of the context manager runs when the body returns and when it
  raises.
\<close>

definition with_BulkCopyPkg :: "string \<Rightarrow> 'a prog \<Rightarrow> 'a prog" where
  "with_BulkCopyPkg table_name body =
     (\<lambda>s. case body (s @ [SessionOpen table_name]) of
             (r, s') \<Rightarrow> (r, s' @ [SessionClose table_name]))"

definition loader_add_df :: "collaborators \<Rightarrow> string \<Rightarrow> dataframe \<Rightarrow> unit prog" where
  "loader_add_df col table_name df =
     (case loader_add col table_name df of
        Some e \<Rightarrow> praise e
      | None \<Rightarrow> emit (SessionAdd table_name df))"

section \<open>The EIA adapter\<close>

definition static_tables_eia :: "string list" where
  "static_tables_eia =
     [''fuel_type_eia923'', ''prime_movers_eia923'', ''fuel_type_aer_eia923'',
      ''energy_source_eia923'', ''transport_modes_eia923'']"

text \<open>\<^verbatim>\<open>_load_static_tables_eia\<close>: the data frames are built from constants.\<close>

definition load_static_tables_eia :: "string list prog" where
  "load_static_tables_eia =
     pbind (emit (DictDump ''Static EIA Tables'' static_tables_eia)) (\<lambda>_.
     preturn static_tables_eia)"

text \<open>\<^verbatim>\<open>d = a.copy(); d.update(b.copy())\<close>\<close>

definition dict_update_all :: "tables \<Rightarrow> tables \<Rightarrow> tables" where
  "dict_update_all a b = fold (\<lambda>kv d. AList.update (fst kv) (snd kv) d) b a"

definition etl_eia_pkg :: "collaborators \<Rightarrow> constants \<Rightarrow> dict \<Rightarrow> string list prog" where
  "etl_eia_pkg col pc etl_params =
     pbind (plift (validate_input_eia pc etl_params)) (\<lambda>eia_inputs.
     pbind (plift (py_getitem eia_inputs ''eia923_tables'')) (\<lambda>eia923_tables.
     pbind (plift (py_getitem eia_inputs ''eia923_years'')) (\<lambda>eia923_years.
     pbind (plift (py_getitem eia_inputs ''eia860_tables'')) (\<lambda>eia860_tables.
     pbind (plift (py_getitem eia_inputs ''eia860_years'')) (\<lambda>eia860_years.
     if (\<not> truthy eia923_tables \<or> \<not> truthy eia923_years)
        \<and> (\<not> truthy eia860_tables \<or> \<not> truthy eia860_years)
     then preturn []
     else
     pbind load_static_tables_eia (\<lambda>static_tables.
     pbind (plift (extract_eia923 col eia923_years)) (\<lambda>eia923_raw_dfs.
     pbind (plift (extract_eia860 col eia860_years)) (\<lambda>eia860_raw_dfs.
     pbind (plift (transform_eia923 col eia923_raw_dfs eia923_tables)) (\<lambda>eia923_transformed_dfs.
     pbind (plift (transform_eia860 col eia860_raw_dfs eia860_tables)) (\<lambda>eia860_transformed_dfs.
     pbind (plift (transform_eia col
                     (dict_update_all eia860_transformed_dfs eia923_transformed_dfs)
                     eia923_years eia860_years)) (\<lambda>both.
     pbind (dict_dump (fst both) ''Entities'') (\<lambda>_.
     pbind (dict_dump (snd both) ''EIA'') (\<lambda>_.
     preturn (map fst (snd both) @ map fst (fst both) @ static_tables))))))))))))))"

section \<open>The FERC 1 adapter\<close>

definition static_tables_ferc :: "string list" where
  "static_tables_ferc = [''ferc_accounts'', ''ferc_depreciation_lines'']"

definition load_static_tables_ferc :: "string list prog" where
  "load_static_tables_ferc =
     pbind (emit (DictDump ''Static FERC Tables'' static_tables_ferc)) (\<lambda>_.
     preturn static_tables_ferc)"

definition etl_ferc1_pkg :: "collaborators \<Rightarrow> constants \<Rightarrow> dict \<Rightarrow> string list prog" where
  "etl_ferc1_pkg col pc etl_params =
     pbind (plift (validate_input_ferc1 pc etl_params)) (\<lambda>ferc1_inputs.
     pbind (plift (py_getitem ferc1_inputs ''ferc1_years'')) (\<lambda>ferc1_years.
     pbind (plift (py_getitem ferc1_inputs ''ferc1_tables'')) (\<lambda>ferc1_tables.
     if \<not> truthy ferc1_years \<or> \<not> truthy ferc1_tables then preturn []
     else
     pbind load_static_tables_ferc (\<lambda>static_tables.
     pbind (plift (py_getitem ferc1_inputs ''ferc1_testing'')) (\<lambda>testing.
     pbind (plift (extract_ferc1 col ferc1_tables ferc1_years testing)) (\<lambda>ferc1_raw_dfs.
     pbind (plift (transform_ferc1 col ferc1_raw_dfs ferc1_tables)) (\<lambda>ferc1_transformed_dfs.
     pbind (dict_dump ferc1_transformed_dfs ''FERC 1'') (\<lambda>_.
     preturn (map fst ferc1_transformed_dfs @ static_tables)))))))))"

section \<open>The EPA CEMS adapter\<close>

text \<open>\<^verbatim>\<open>for transformed_df in transformed_df_dict.values(): loader.add(transformed_df)\<close>\<close>

fun add_all :: "collaborators \<Rightarrow> string \<Rightarrow> dataframe list \<Rightarrow> unit prog" where
  "add_all col table_name [] = preturn ()"
| "add_all col table_name (df # dfs) =
     pbind (loader_add_df col table_name df) (\<lambda>_. add_all col table_name dfs)"

text \<open>\<^verbatim>\<open>for transformed_df_dict in epacems_transformed_dfs: ...\<close>, pulling the generator.\<close>

fun load_chunks :: "collaborators \<Rightarrow> string \<Rightarrow> (error + tables) list \<Rightarrow> unit prog" where
  "load_chunks col table_name [] = preturn ()"
| "load_chunks col table_name (c # cs) =
     (case c of
        Inl e \<Rightarrow> praise e
      | Inr transformed_df_dict \<Rightarrow>
          pbind (add_all col table_name (map snd transformed_df_dict)) (\<lambda>_.
          load_chunks col table_name cs))"

text \<open>
  \<^verbatim>\<open>_etl_epacems_part\<close>, with \<^verbatim>\<open>table_name = f"hourly_emissions_epacems_{part}"\<close>.
  The generators are made with \<^verbatim>\<open>epacems_years=[part]\<close> and the
  states passed in; the parameter \<^verbatim>\<open>epacems_years\<close> is not used. Logging is left out.
\<close>

definition epacems_table_name :: "pyval \<Rightarrow> string" where
  "epacems_table_name part = ''hourly_emissions_epacems_'' @ py_str part"

definition etl_epacems_part ::
  "collaborators \<Rightarrow> pyval \<Rightarrow> pyval \<Rightarrow> pyval \<Rightarrow> string prog" where
  "etl_epacems_part col part epacems_years epacems_states =
     (let epacems_transformed_dfs = epacems_chunks col (PList [part]) epacems_states;
          table_name = epacems_table_name part
      in pbind (with_BulkCopyPkg table_name
                  (load_chunks col table_name epacems_transformed_dfs)) (\<lambda>_.
         preturn table_name))"

text \<open>\<^verbatim>\<open>d[key]\<close> for a dictionary with string keys and any key (only called on a
  dictionary).\<close>

fun py_getitem_key :: "pyval \<Rightarrow> pyval \<Rightarrow> error + pyval" where
  "py_getitem_key (PDict d) key =
     (if \<not> hashable key then Inl TypeError
      else case key of PStr k \<Rightarrow> py_getitem (PDict d) k | _ \<Rightarrow> Inl (KeyError key))"
| "py_getitem_key v key = Inl TypeError"

text \<open>The loop over the partition keys in \<^verbatim>\<open>_etl_epacems_pkg\<close>.\<close>

fun epacems_parts :: "collaborators \<Rightarrow> pyval list \<Rightarrow> pyval \<Rightarrow> pyval \<Rightarrow> unit prog" where
  "epacems_parts col [] epacems_years epacems_states = preturn ()"
| "epacems_parts col (part # parts) epacems_years epacems_states =
     pbind (plift (py_in part epacems_years)) (\<lambda>in_years.
     pbind (plift (py_in part epacems_states)) (\<lambda>in_states.
     pbind (etl_epacems_part col part
              (if in_years then PList [part] else epacems_years)
              (if in_states then PList [part] else epacems_states)) (\<lambda>_.
     epacems_parts col parts
       (if in_years then PList [part] else epacems_years)
       (if in_states then PList [part] else epacems_states))))"

text \<open>The iterable of the loop: \<^verbatim>\<open>epacems_dict[epacems_partition[pc.epacems_tables]]\<close>.\<close>

definition partition_keys :: "constants \<Rightarrow> pyval \<Rightarrow> pyval \<Rightarrow> error + pyval list" where
  "partition_keys pc epacems_dict epacems_partition =
     ebind (py_getitem epacems_partition (epacems_tables pc)) (\<lambda>key.
     ebind (py_getitem_key epacems_dict key) (\<lambda>keys.
     py_iter keys))"

definition etl_epacems_pkg :: "collaborators \<Rightarrow> constants \<Rightarrow> dict \<Rightarrow> string list prog" where
  "etl_epacems_pkg col pc etl_params =
     pbind (plift (validate_input_epacems pc etl_params)) (\<lambda>epacems_dict.
     pbind (plift (py_getitem epacems_dict ''epacems_years'')) (\<lambda>epacems_years.
     pbind (plift (py_getitem epacems_dict ''epacems_states'')) (\<lambda>epacems_states.
     pbind (plift (py_getitem epacems_dict ''partition'')) (\<lambda>epacems_partition.
     if \<not> truthy epacems_states \<or> \<not> truthy epacems_years then preturn []
     else
     pbind (plift (partition_keys pc epacems_dict epacems_partition)) (\<lambda>parts.
     pbind (epacems_parts col parts epacems_years epacems_states) (\<lambda>_.
     preturn [''hourly_emissions_epacems'']))))))"

section \<open>The EPA IPM adapter\<close>

definition static_tables_epaipm :: "string list" where
  "static_tables_epaipm = [''regions_entity_epaipm'']"

definition load_static_tables_epaipm :: "string list prog" where
  "load_static_tables_epaipm =
     pbind (emit (DictDump ''Static IPM Tables'' static_tables_epaipm)) (\<lambda>_.
     preturn static_tables_epaipm)"

definition etl_epaipm :: "collaborators \<Rightarrow> dict \<Rightarrow> string list prog" where
  "etl_epaipm col etl_params =
     pbind (plift (validate_input_epaipm etl_params)) (\<lambda>epaipm_dict.
     pbind (plift (py_getitem epaipm_dict ''epaipm_tables'')) (\<lambda>epaipm_tables.
     pbind load_static_tables_epaipm (\<lambda>static_tables.
     pbind (plift (extract_epaipm col epaipm_tables)) (\<lambda>epaipm_raw_dfs.
     pbind (plift (transform_epaipm col epaipm_raw_dfs epaipm_tables)) (\<lambda>epaipm_transformed_dfs.
     pbind (dict_dump epaipm_transformed_dfs ''EPA IPM'') (\<lambda>_.
     preturn (map fst epaipm_transformed_dfs @ static_tables)))))))"

section \<open>The glue adapter\<close>

text \<open>The adapter returns a list of table names, or the string of its early return.\<close>

definition etl_glue :: "collaborators \<Rightarrow> dict \<Rightarrow> pyval prog" where
  "etl_glue col etl_params =
     pbind (plift (validate_input_glue etl_params)) (\<lambda>glue_dict.
     pbind (plift (py_getitem glue_dict ''ferc1'')) (\<lambda>ferc1.
     pbind (plift (py_getitem glue_dict ''eia'')) (\<lambda>eia.
     if \<not> truthy eia \<and> \<not> truthy ferc1 then preturn (PStr ''ahhhh this is not werking'')
     else
     pbind (plift (py_getitem glue_dict ''ferc1'')) (\<lambda>ferc1_arg.
     pbind (plift (py_getitem glue_dict ''eia'')) (\<lambda>eia_arg.
     pbind (plift (glue_ferc1_eia col ferc1_arg eia_arg)) (\<lambda>glue_dfs.
     pbind (dict_dump glue_dfs ''Glue'') (\<lambda>_.
     preturn (PList (map PStr (map fst glue_dfs))))))))))"

section \<open>The package coordinator\<close>

text \<open>
  Every adapter starts by validating \<^verbatim>\<open>etl_params\<close>, and every validator starts by
  subscripting \<^verbatim>\<open>etl_params\<close> with a string under \<^verbatim>\<open>except KeyError\<close>: anything but a
  dictionary raises \<^verbatim>\<open>TypeError\<close> there.
\<close>

definition as_dict :: "pyval \<Rightarrow> error + dict" where
  "as_dict v = (case v of PDict d \<Rightarrow> Inr d | _ \<Rightarrow> Inl TypeError)"

definition names :: "string list \<Rightarrow> pyval" where
  "names tbls = PList (map PStr tbls)"

text \<open>The \<^verbatim>\<open>if\<close>/\<^verbatim>\<open>elif\<close> chain of \<^verbatim>\<open>etl_pkg\<close> for one key of one dataset dictionary.
  The arguments of a call are evaluated before the call, from left to right.\<close>

definition etl_dataset ::
  "collaborators \<Rightarrow> constants \<Rightarrow> dict \<Rightarrow> pyval \<Rightarrow> pyval \<Rightarrow> pyval prog" where
  "etl_dataset col pc pudl_settings dataset_dict dataset =
     (if py_eq dataset (PStr ''eia'') then
        pbind (plift (py_getitem dataset_dict ''eia'')) (\<lambda>etl_params.
        pbind (plift (py_getitem (PDict pudl_settings) ''data_dir'')) (\<lambda>_.
        pbind (plift (as_dict etl_params)) (\<lambda>p.
        pbind (etl_eia_pkg col pc p) (\<lambda>tbls. preturn (names tbls)))))
      else if py_eq dataset (PStr ''ferc1'') then
        pbind (plift (py_getitem dataset_dict ''ferc1'')) (\<lambda>etl_params.
        pbind (plift (as_dict etl_params)) (\<lambda>p.
        pbind (etl_ferc1_pkg col pc p) (\<lambda>tbls. preturn (names tbls))))
      else if py_eq dataset (PStr ''epacems'') then
        pbind (plift (py_getitem dataset_dict ''epacems'')) (\<lambda>etl_params.
        pbind (plift (py_getitem (PDict pudl_settings) ''data_dir'')) (\<lambda>_.
        pbind (plift (as_dict etl_params)) (\<lambda>p.
        pbind (etl_epacems_pkg col pc p) (\<lambda>tbls. preturn (names tbls)))))
      else if py_eq dataset (PStr ''glue'') then
        pbind (plift (py_getitem dataset_dict ''glue'')) (\<lambda>etl_params.
        pbind (plift (as_dict etl_params)) (\<lambda>p.
        etl_glue col p))
      else if py_eq dataset (PStr ''epaipm'') then
        pbind (plift (py_getitem dataset_dict ''epaipm'')) (\<lambda>etl_params.
        pbind (plift (py_getitem (PDict pudl_settings) ''data_dir'')) (\<lambda>_.
        pbind (plift (as_dict etl_params)) (\<lambda>p.
        pbind (etl_epaipm col p) (\<lambda>tbls. preturn (names tbls)))))
      else praise (AssertionError (''Invalid dataset '' @ py_str dataset @ '' found in input.'')))"

text \<open>\<^verbatim>\<open>for dataset in dataset_dict: ...; if tbls: tables.extend(tbls)\<close>\<close>

fun etl_dataset_keys ::
  "collaborators \<Rightarrow> constants \<Rightarrow> dict \<Rightarrow> pyval \<Rightarrow> pyval list \<Rightarrow> pyval list \<Rightarrow> pyval list prog"
  where
  "etl_dataset_keys col pc pudl_settings dataset_dict [] tables = preturn tables"
| "etl_dataset_keys col pc pudl_settings dataset_dict (dataset # rest) tables =
     pbind (etl_dataset col pc pudl_settings dataset_dict dataset) (\<lambda>tbls.
     if truthy tbls
     then pbind (plift (py_iter tbls)) (\<lambda>more.
          etl_dataset_keys col pc pudl_settings dataset_dict rest (tables @ more))
     else etl_dataset_keys col pc pudl_settings dataset_dict rest tables)"

text \<open>\<^verbatim>\<open>for dataset_dict in pkg_settings['datasets']: ...\<close>\<close>

fun etl_datasets ::
  "collaborators \<Rightarrow> constants \<Rightarrow> dict \<Rightarrow> pyval list \<Rightarrow> pyval list \<Rightarrow> pyval list prog" where
  "etl_datasets col pc pudl_settings [] tables = preturn tables"
| "etl_datasets col pc pudl_settings (dataset_dict # rest) tables =
     pbind (plift (py_iter dataset_dict)) (\<lambda>keys.
     pbind (etl_dataset_keys col pc pudl_settings dataset_dict keys tables) (\<lambda>tables'.
     etl_datasets col pc pudl_settings rest tables'))"

text \<open>
  \<^verbatim>\<open>_prep_directories\<close>: the package directory is deleted if it exists and made anew
  with its \<^verbatim>\<open>data\<close> directory. The calls raise (and the error propagates) or the reset is
  one event. The package directory is named by the name of the package.
\<close>

definition prep_directories :: "collaborators \<Rightarrow> string \<Rightarrow> unit prog" where
  "prep_directories col pkg_dir =
     (case reset_directory col pkg_dir of
        Some e \<Rightarrow> praise e
      | None \<Rightarrow> emit (PrepDirectories pkg_dir))"

text \<open>\<^verbatim>\<open>etl_pkg\<close>. \<^verbatim>\<open>os.path.join\<close> wants a string for the package name.\<close>

definition etl_pkg :: "collaborators \<Rightarrow> constants \<Rightarrow> dict \<Rightarrow> dict \<Rightarrow> pyval list prog" where
  "etl_pkg col pc pkg_settings pudl_settings =
     pbind (plift (py_getitem (PDict pkg_settings) ''name'')) (\<lambda>name.
     pbind (case name of PStr n \<Rightarrow> prep_directories col n | _ \<Rightarrow> praise TypeError) (\<lambda>_.
     pbind (plift (py_getitem (PDict pkg_settings) ''datasets'')) (\<lambda>datasets.
     pbind (plift (py_iter datasets)) (\<lambda>dataset_dicts.
     etl_datasets col pc pudl_settings dataset_dicts []))))"

section \<open>A small instance\<close>

text \<open>
  A restricted universe of constants and collaborators that always succeed, on which the
  definitions above can be run. The collaborators return one table per source; the
  EPA CEMS generators yield two dictionaries of one data frame each.
\<close>

definition example_constants :: constants where
  "example_constants =
     \<lparr>pudl_tables_eia860 = [''plants_eia860'', ''generators_eia860''],
      pudl_tables_eia923 = [''boiler_fuel_eia923'', ''generation_eia923'', ''fuel_receipts_costs_eia923''],
      pudl_tables_ferc1 = [''fuel_ferc1'', ''plants_steam_ferc1''],
      eia860_pudl_tables = [''plants_eia860'', ''generators_eia860''],
      eia923_pudl_tables = [''boiler_fuel_eia923'', ''generation_eia923'', ''fuel_receipts_costs_eia923''],
      ferc1_pudl_tables = [''fuel_ferc1'', ''plants_steam_ferc1''],
      working_years_eia860 = [2016, 2017, 2018],
      working_years_eia923 = [2016, 2017, 2018],
      cems_states = [''ID'', ''CO''],
      epacems_tables = ''hourly_emissions_epacems''\<rparr>"

definition example_collaborators :: collaborators where
  "example_collaborators =
     \<lparr>extract_eia923 = (\<lambda>years. Inr 1),
      extract_eia860 = (\<lambda>years. Inr 2),
      transform_eia923 = (\<lambda>r tbls. Inr [(''generation_eia923'', 3)]),
      transform_eia860 = (\<lambda>r tbls. Inr [(''plants_eia860'', 4)]),
      transform_eia = (\<lambda>dfs y923 y860. Inr ([(''plants_entity_eia'', 5)], dfs)),
      extract_ferc1 = (\<lambda>tbls years testing. Inr 6),
      transform_ferc1 = (\<lambda>r tbls. Inr [(''fuel_ferc1'', 7)]),
      epacems_chunks = (\<lambda>years states. [Inr [(''a'', 8)], Inr [(''b'', 9)]]),
      loader_add = (\<lambda>n df. None),
      extract_epaipm = (\<lambda>tbls. Inr 10),
      transform_epaipm = (\<lambda>r tbls. Inr [(''transmission_single_epaipm'', 11)]),
      glue_ferc1_eia = (\<lambda>f e. Inr [(''plants_pudl'', 12)]),
      reset_directory = (\<lambda>pkg_dir. None)\<rparr>"

text \<open>The same collaborators, except that the transformation of EPA CEMS raises when
  asked for the second of three items.\<close>

definition failing_collaborators :: collaborators where
  "failing_collaborators =
     example_collaborators
       \<lparr>epacems_chunks := (\<lambda>years states.
          [Inr [(''a'', 8)], Inl (CollaboratorError ''transform''), Inr [(''c'', 9)]])\<rparr>"

section \<open>Predicates for stating properties\<close>

text \<open>Every element the loop \<^verbatim>\<open>for x in v\<close> visits lies in the universe.\<close>

definition all_in :: "pyval \<Rightarrow> pyval list \<Rightarrow> bool" where
  "all_in v universe =
     (case py_iter v of Inl e \<Rightarrow> False | Inr xs \<Rightarrow> list_all (\<lambda>x. py_in_seq x universe) xs)"

text \<open>The writer sessions that are open at the end of a trace, latest first.\<close>

fun session_step :: "event \<Rightarrow> string list \<Rightarrow> string list" where
  "session_step (SessionOpen n) opened = n # opened"
| "session_step (SessionClose n) opened = remove1 n opened"
| "session_step ev opened = opened"

definition open_sessions :: "event list \<Rightarrow> string list" where
  "open_sessions trace = fold session_step trace []"

text \<open>The table names of the sessions a trace opens, and of the data frames it adds.\<close>

fun session_names :: "event list \<Rightarrow> string list" where
  "session_names [] = []"
| "session_names (SessionOpen n # evs) = n # session_names evs"
| "session_names (ev # evs) = session_names evs"

fun add_names :: "event list \<Rightarrow> string list" where
  "add_names [] = []"
| "add_names (SessionAdd n df # evs) = n # add_names evs"
| "add_names (ev # evs) = add_names evs"

section \<open>Facts about the Python primitives\<close>

lemma py_in_seq_PStr: "py_in_seq (PStr s) (map PStr U) = (s \<in> set U)"
  by (induction U) (auto simp: py_in_seq_def)

lemma py_in_seq_PInt: "py_in_seq (PInt i) (map PInt U) = (i \<in> set U)"
  by (induction U) (auto simp: py_in_seq_def)

lemma check_members_ok:
  "list_all (\<lambda>x. py_in_seq x U) xs \<Longrightarrow> check_members xs U pre post = Inr ()"
  by (induction xs) auto

lemma check_members_fail:
  "\<not> list_all (\<lambda>x. py_in_seq x U) xs \<Longrightarrow> \<exists>m. check_members xs U pre post = Inl (AssertionError m)"
  by (induction xs) auto

lemma check_members_cases:
  "check_members xs U pre post = Inr () \<or> (\<exists>m. check_members xs U pre post = Inl (AssertionError m))"
  by (induction xs) auto

lemma partition_check_KeyError:
  "partition_check og pd ts = Inl (KeyError k) \<Longrightarrow> \<exists>d. pd = PDict d"
  by (cases pd; cases ts) auto

lemma partition_check_Inr:
  "ts \<noteq> [] \<Longrightarrow> partition_check og pd ts = Inr u \<Longrightarrow> \<exists>d. pd = PDict d \<and> d \<noteq> []"
  by (cases pd; cases ts) (auto split: option.splits sum.splits if_splits)

lemma py_getitem_error:
  "py_getitem pd t = Inl e \<Longrightarrow> e = TypeError \<or> e = KeyError (PStr t)"
  by (cases pd) (auto split: option.splits)

lemma py_in_keys_error: "py_in_keys v ks = Inl e \<Longrightarrow> e = TypeError"
  by (auto simp: py_in_keys_def split: if_splits)

lemma partition_check_error:
  "partition_check og pd ts = Inl e \<Longrightarrow>
     e = TypeError \<or> (\<exists>k. e = KeyError k) \<or> e = AssertionError ''Partion not recognized''"
proof (induction ts)
  case Nil
  then show ?case by simp
next
  case (Cons t ts)
  then show ?case
    by (auto split: sum.splits if_splits dest: py_getitem_error py_in_keys_error)
qed

lemma validate_input_partition_ok:
  "map_of p ''partition'' = Some pd \<Longrightarrow> partition_check p pd tables = Inr u \<Longrightarrow>
     validate_input_partition p tables = Inr pd"
  by (simp add: validate_input_partition_def)

lemma validate_input_partition_caught:
  "map_of p ''partition'' = Some pd \<Longrightarrow> partition_check p pd tables = Inl (KeyError k) \<Longrightarrow>
     validate_input_partition p tables = py_setitem pd ''partition'' PNone"
  by (simp add: validate_input_partition_def)

lemma validate_input_partition_raised:
  "map_of p ''partition'' = Some pd \<Longrightarrow> partition_check p pd tables = Inl e \<Longrightarrow>
     e = TypeError \<or> e = AssertionError m \<Longrightarrow> validate_input_partition p tables = Inl e"
  by (auto simp add: validate_input_partition_def)

lemma validate_input_partition_error:
  assumes "validate_input_partition p tables = Inl e"
  shows "e = TypeError \<or> e = AssertionError ''Partion not recognized''"
proof (cases "map_of p ''partition''")
  case None
  with assms show ?thesis by (simp add: validate_input_partition_def)
next
  case (Some pd)
  show ?thesis
  proof (cases "partition_check p pd tables")
    case (Inl e')
    from partition_check_error [OF Inl] consider
      (key) k where "e' = KeyError k" | (other) "e' = TypeError \<or> e' = AssertionError ''Partion not recognized''"
      by blast
    then show ?thesis
    proof cases
      case key
      with Inl partition_check_KeyError obtain d where "pd = PDict d" by blast
      with validate_input_partition_caught [OF Some] Inl key assms show ?thesis by simp
    next
      case other
      with validate_input_partition_raised [OF Some Inl] assms show ?thesis by auto
    qed
  next
    case (Inr u)
    with validate_input_partition_ok [OF Some] assms show ?thesis by simp
  qed
qed

lemma validate_input_partition_nonempty:
  assumes "tables \<noteq> []" and "validate_input_partition p tables = Inr r"
  shows "\<exists>d. r = PDict d \<and> d \<noteq> []"
proof (cases "map_of p ''partition''")
  case None
  with assms show ?thesis by (auto simp: validate_input_partition_def)
next
  case (Some pd)
  show ?thesis
  proof (cases "partition_check p pd tables")
    case (Inl e)
    from partition_check_error [OF Inl] consider
      (key) k where "e = KeyError k" | (other) "e = TypeError \<or> e = AssertionError ''Partion not recognized''"
      by blast
    then show ?thesis
    proof cases
      case key
      with Inl partition_check_KeyError obtain d where d: "pd = PDict d" by blast
      from validate_input_partition_caught [OF Some] Inl key assms(2) d
      have "r = PDict (AList.update ''partition'' PNone d)" by simp
      then show ?thesis by (cases d) auto
    next
      case other
      with validate_input_partition_raised [OF Some Inl] assms show ?thesis by auto
    qed
  next
    case (Inr u)
    from partition_check_Inr [OF assms(1) Inr] validate_input_partition_ok [OF Some Inr] assms(2)
    show ?thesis by simp
  qed
qed

lemma validate_input_partition_absent:
  "map_of p ''partition'' = None \<Longrightarrow>
     validate_input_partition p tables = Inr (PDict [(''partition'', PNone)])"
  by (simp add: validate_input_partition_def)

lemma ebind_Inl_iff: "ebind m f = Inl e \<longleftrightarrow> m = Inl e \<or> (\<exists>x. m = Inr x \<and> f x = Inl e)"
  by (cases m) (auto simp: ebind_def)

lemma ebind_Inr_iff: "ebind m f = Inr y \<longleftrightarrow> (\<exists>x. m = Inr x \<and> f x = Inr y)"
  by (cases m) (auto simp: ebind_def)

lemma py_getitem0_error: "py_getitem0 v = Inl e \<Longrightarrow> e \<noteq> AssertionError m"
  by (cases v) (auto split: list.splits)

lemma py_lower_error: "py_lower v = Inl e \<Longrightarrow> e \<noteq> AssertionError m"
  by (cases v) auto

section \<open>The partition of EPA CEMS\<close>

text \<open>
  Claim C10. The module calls \<^verbatim>\<open>_validate_input_partition\<close> only from
  \<^verbatim>\<open>_validate_input_epacems\<close>, with the one table \<^verbatim>\<open>[pc.epacems_tables]\<close>. Whenever that call
  returns without raising, its result is a non-empty dictionary, hence truthy (and so
  it is for every non-empty list of tables); when the raw configuration has no
  \<^verbatim>\<open>'partition'\<close> entry it returns \<^verbatim>\<open>{'partition': None}\<close>. So the test
  \<^verbatim>\<open>if not epacems_dict['partition']\<close> of \<^verbatim>\<open>_validate_input_epacems\<close> never fires, and the
  assertion error "No partition found for EPA CEMS" is raised for no input.
\<close>

theorem partition_result_nonempty:
  "(validate_input_partition etl_params [epacems_tables pc] = Inr r
      \<longrightarrow> (\<exists>d. r = PDict d \<and> d \<noteq> []) \<and> truthy r)
   \<and> (map_of etl_params ''partition'' = None
      \<longrightarrow> validate_input_partition etl_params tables = Inr (PDict [(''partition'', PNone)]))
   \<and> (tables \<noteq> [] \<and> validate_input_partition etl_params tables = Inr r
      \<longrightarrow> (\<exists>d. r = PDict d \<and> d \<noteq> []) \<and> truthy r)
   \<and> validate_input_epacems pc etl_params \<noteq> Inl (AssertionError no_partition_message)"
proof (intro conjI impI)
  assume "validate_input_partition etl_params [epacems_tables pc] = Inr r"
  then show "\<exists>d. r = PDict d \<and> d \<noteq> []"
    using validate_input_partition_nonempty [of "[epacems_tables pc]"] by blast
  then show "truthy r" by auto
next
  assume "map_of etl_params ''partition'' = None"
  then show "validate_input_partition etl_params tables = Inr (PDict [(''partition'', PNone)])"
    by (rule validate_input_partition_absent)
next
  assume a: "tables \<noteq> [] \<and> validate_input_partition etl_params tables = Inr r"
  then show "\<exists>d. r = PDict d \<and> d \<noteq> []"
    using validate_input_partition_nonempty by blast
  then show "truthy r" by auto
next
  show "validate_input_epacems pc etl_params \<noteq> Inl (AssertionError no_partition_message)"
  proof
    assume h: "validate_input_epacems pc etl_params = Inl (AssertionError no_partition_message)"
    have t: "truthy r'" if "validate_input_partition etl_params [epacems_tables pc] = Inr r'" for r'
      using validate_input_partition_nonempty [of "[epacems_tables pc]" etl_params r'] that by auto
    have ne: "validate_input_partition etl_params [epacems_tables pc]
                \<noteq> Inl (AssertionError no_partition_message)"
      using validate_input_partition_error [of etl_params "[epacems_tables pc]"]
      by (auto simp: no_partition_message_def)
    from h show False
      unfolding validate_input_epacems_def Let_def
      using t ne
      by (auto simp: ebind_Inl_iff split: if_splits dest: py_getitem0_error py_lower_error)
  qed
qed

text \<open>
  Witness for C10: a configuration partitioned by years, a configuration without a
  \<^verbatim>\<open>'partition'\<close> entry, and the table of EPA CEMS in the small instance.
\<close>

theorem partition_result_nonempty_witness:
  "epacems_tables example_constants = ''hourly_emissions_epacems''
   \<and> validate_input_partition
        [(''epacems_years'', PList [PInt 2018]),
         (''partition'', PDict [(''hourly_emissions_epacems'', PStr ''epacems_years'')])]
        [epacems_tables example_constants]
      = Inr (PDict [(''hourly_emissions_epacems'', PStr ''epacems_years'')])
   \<and> truthy (PDict [(''hourly_emissions_epacems'', PStr ''epacems_years'')])
   \<and> map_of [(''epacems_years'', PList [PInt 2018])] ''partition'' = None
   \<and> validate_input_partition [(''epacems_years'', PList [PInt 2018])]
        [epacems_tables example_constants]
      = Inr (PDict [(''partition'', PNone)])
   \<and> truthy (PDict [(''partition'', PNone)])
   \<and> validate_input_epacems example_constants [(''epacems_years'', PList [PInt 2018])]
      \<noteq> Inl (AssertionError no_partition_message)"
proof -
  have t: "epacems_tables example_constants = ''hourly_emissions_epacems''"
    by (simp add: example_constants_def)
  have p: "validate_input_partition
        [(''epacems_years'', PList [PInt 2018]),
         (''partition'', PDict [(''hourly_emissions_epacems'', PStr ''epacems_years'')])]
        [epacems_tables example_constants]
      = Inr (PDict [(''hourly_emissions_epacems'', PStr ''epacems_years'')])"
    by (simp add: t validate_input_partition_def py_in_keys_def)
  have q: "map_of [(''epacems_years'', PList [PInt 2018])] ''partition'' = None"
    by simp
  note w1 = partition_result_nonempty
          [of "[(''epacems_years'', PList [PInt 2018]),
                (''partition'', PDict [(''hourly_emissions_epacems'', PStr ''epacems_years'')])]"
              example_constants
              "PDict [(''hourly_emissions_epacems'', PStr ''epacems_years'')]"
              "[epacems_tables example_constants]"]
  note w2 = partition_result_nonempty
          [of "[(''epacems_years'', PList [PInt 2018])]" example_constants
              "PDict [(''partition'', PNone)]" "[epacems_tables example_constants]"]
  from w1 p have a: "truthy (PDict [(''hourly_emissions_epacems'', PStr ''epacems_years'')])"
    by blast
  from w2 q have b: "validate_input_partition [(''epacems_years'', PList [PInt 2018])]
        [epacems_tables example_constants] = Inr (PDict [(''partition'', PNone)])"
    by blast
  with w2 have c: "truthy (PDict [(''partition'', PNone)])" by blast
  from w2 have d: "validate_input_epacems example_constants [(''epacems_years'', PList [PInt 2018])]
      \<noteq> Inl (AssertionError no_partition_message)" by blast
  from t p a q b c d show ?thesis by blast
qed

text \<open>
  Claim C3 at its failing input. The raw configuration has years and states but no
  \<^verbatim>\<open>'partition'\<close> entry, so no partition dimension is resolvable; the claim wants an
  assertion error, and \<^verbatim>\<open>_validate_input_epacems\<close> returns a configuration whose
  partition is \<^verbatim>\<open>{'partition': None}\<close>.
\<close>

theorem epacems_without_partition_accepted:
  "validate_input_epacems pc
     [(''epacems_years'', PList [PInt 2018]), (''epacems_states'', PList [PStr ''ID''])]
   = Inr (PDict [(''epacems_years'', PList [PInt 2018]),
                 (''epacems_states'', PList [PStr ''ID'']),
                 (''partition'', PDict [(''partition'', PNone)])])"
  by (simp add: validate_input_epacems_def validate_input_partition_def get_or_def ebind_def
      lower_char_def)

text \<open>Witness for C3: the failing input under the constants of the small instance.\<close>

theorem epacems_without_partition_accepted_witness:
  "validate_input_epacems example_constants
     [(''epacems_years'', PList [PInt 2018]), (''epacems_states'', PList [PStr ''ID''])]
   = Inr (PDict [(''epacems_years'', PList [PInt 2018]),
                 (''epacems_states'', PList [PStr ''ID'']),
                 (''partition'', PDict [(''partition'', PNone)])])"
  using epacems_without_partition_accepted [of example_constants] by simp

section \<open>Validation of the EIA parameters\<close>

lemma check_all_ok: "all_in v U \<Longrightarrow> check_all v U pre post = Inr ()"
  by (auto simp: all_in_def check_all_def ebind_def check_members_ok split: sum.splits)

lemma check_all_ok_iff: "check_all v U pre post = Inr u \<longleftrightarrow> all_in v U"
proof (cases "py_iter v")
  case (Inl e)
  then show ?thesis by (simp add: all_in_def check_all_def ebind_def)
next
  case (Inr xs)
  show ?thesis
  proof (cases "list_all (\<lambda>x. py_in_seq x U) xs")
    case True
    with Inr show ?thesis by (simp add: all_in_def check_all_def ebind_def check_members_ok)
  next
    case False
    from check_members_fail [OF False] obtain m
      where "check_members xs U pre post = Inl (AssertionError m)" by blast
    with Inr False show ?thesis
      by (simp add: all_in_def check_all_def ebind_def)
  qed
qed

lemma check_all_list_fail:
  "\<not> list_all (\<lambda>x. py_in_seq x U) xs \<Longrightarrow> \<exists>m. check_all (PList xs) U pre post = Inl (AssertionError m)"
  using check_members_fail [of U xs pre post] by (simp add: check_all_def ebind_def)

lemma all_in_strs: "all_in (PList (map PStr D)) (map PStr U) \<longleftrightarrow> set D \<subseteq> set U"
  by (auto simp: all_in_def list_all_iff py_in_seq_PStr)

lemma all_in_minimal:
  "all_in eia923_minimal_tables (map PStr U) \<longleftrightarrow>
     ''boiler_fuel_eia923'' \<in> set U \<and> ''generation_eia923'' \<in> set U"
  by (simp add: all_in_def eia923_minimal_tables_def py_in_seq_PStr)

lemma all_in_year: "all_in (PList [PInt y]) (map PInt U) \<longleftrightarrow> y \<in> set U"
  by (simp add: all_in_def py_in_seq_PInt)

lemma all_in_nil: "all_in (PList []) U"
  by (simp add: all_in_def)

lemma truthy_minimal: "truthy eia923_minimal_tables"
  by (simp add: eia923_minimal_tables_def)

lemma eia_only_860:
  assumes "truthy ys" and "map_of p ''eia860_years'' = Some ys"
    and "\<not> truthy (get_or p ''eia923_years'' (PList []))"
    and "validate_input_eia pc p = Inr r"
  shows "r = PDict [(''eia860_years'', ys),
                    (''eia860_tables'', get_or p ''eia860_tables'' (PList (map PStr (pudl_tables_eia860 pc)))),
                    (''eia923_years'', ys),
                    (''eia923_tables'', eia923_minimal_tables)]"
  using assms
  by (simp add: validate_input_eia_def Let_def get_or_def ebind_Inr_iff split: if_splits)

lemma eia_only_923:
  assumes "truthy ys" and "map_of p ''eia923_years'' = Some ys"
    and "\<not> truthy (get_or p ''eia860_years'' (PList []))"
    and "validate_input_eia pc p = Inr r"
  shows "r = PDict [(''eia860_years'', ys),
                    (''eia860_tables'', get_or p ''eia860_tables'' (PList (map PStr (pudl_tables_eia860 pc)))),
                    (''eia923_years'', ys),
                    (''eia923_tables'', get_or p ''eia923_tables'' (PList (map PStr (pudl_tables_eia923 pc))))]"
  using assms
  by (simp add: validate_input_eia_def Let_def get_or_def ebind_Inr_iff split: if_splits)

lemma eia_860_alone:
  assumes "set (pudl_tables_eia860 pc) \<subseteq> set (eia860_pudl_tables pc)"
    and "''boiler_fuel_eia923'' \<in> set (eia923_pudl_tables pc)"
    and "''generation_eia923'' \<in> set (eia923_pudl_tables pc)"
    and "y \<in> set (working_years_eia860 pc)" and "y \<in> set (working_years_eia923 pc)"
  shows "validate_input_eia pc [(''eia860_years'', PList [PInt y])]
         = Inr (PDict [(''eia860_years'', PList [PInt y]),
                       (''eia860_tables'', PList (map PStr (pudl_tables_eia860 pc))),
                       (''eia923_years'', PList [PInt y]),
                       (''eia923_tables'', eia923_minimal_tables)])"
  using assms
  by (simp add: validate_input_eia_def Let_def get_or_def ebind_def check_all_ok all_in_strs
      all_in_minimal all_in_year truthy_minimal)

lemma eia_923_alone:
  assumes "set (pudl_tables_eia860 pc) \<subseteq> set (eia860_pudl_tables pc)"
    and "set (pudl_tables_eia923 pc) \<subseteq> set (eia923_pudl_tables pc)"
    and "y \<in> set (working_years_eia860 pc)" and "y \<in> set (working_years_eia923 pc)"
  shows "validate_input_eia pc [(''eia923_years'', PList [PInt y])]
         = Inr (PDict [(''eia860_years'', PList [PInt y]),
                       (''eia860_tables'', PList (map PStr (pudl_tables_eia860 pc))),
                       (''eia923_years'', PList [PInt y]),
                       (''eia923_tables'', PList (map PStr (pudl_tables_eia923 pc)))])"
  using assms
  by (simp add: validate_input_eia_def Let_def get_or_def ebind_def check_all_ok all_in_strs
      all_in_year)

text \<open>
  Claim C2. Validation of the EIA parameters infers years in both directions. When the
  raw configuration sets (truthy) \<^verbatim>\<open>eia860_years\<close> and no \<^verbatim>\<open>eia923_years\<close>, every
  configuration that validation returns has \<^verbatim>\<open>eia923_years\<close> equal to the 860 years and
  \<^verbatim>\<open>eia923_tables\<close> equal to the fixed pair \<^verbatim>\<open>['boiler_fuel_eia923', 'generation_eia923']\<close>;
  when it sets \<^verbatim>\<open>eia923_years\<close> and no \<^verbatim>\<open>eia860_years\<close>, the returned \<^verbatim>\<open>eia860_years\<close>
  equal the 923 years. For the two configurations of the claim, with one year \<open>y\<close> (2018
  in the claim): if the default table lists and the fixed pair lie in the universes of
  tables and \<open>y\<close> in both universes of years, validation returns exactly these
  configurations.
\<close>

theorem eia_years_inferred:
  "(truthy ys \<and> map_of p ''eia860_years'' = Some ys
      \<and> \<not> truthy (get_or p ''eia923_years'' (PList []))
      \<and> validate_input_eia pc p = Inr r
    \<longrightarrow> py_getitem r ''eia923_years'' = Inr ys
        \<and> py_getitem r ''eia923_tables'' = Inr eia923_minimal_tables)
   \<and> (truthy ys \<and> map_of p ''eia923_years'' = Some ys
      \<and> \<not> truthy (get_or p ''eia860_years'' (PList []))
      \<and> validate_input_eia pc p = Inr r
    \<longrightarrow> py_getitem r ''eia860_years'' = Inr ys)
   \<and> (set (pudl_tables_eia860 pc) \<subseteq> set (eia860_pudl_tables pc)
      \<and> set (pudl_tables_eia923 pc) \<subseteq> set (eia923_pudl_tables pc)
      \<and> ''boiler_fuel_eia923'' \<in> set (eia923_pudl_tables pc)
      \<and> ''generation_eia923'' \<in> set (eia923_pudl_tables pc)
      \<and> y \<in> set (working_years_eia860 pc) \<and> y \<in> set (working_years_eia923 pc)
    \<longrightarrow> validate_input_eia pc [(''eia860_years'', PList [PInt y])]
          = Inr (PDict [(''eia860_years'', PList [PInt y]),
                        (''eia860_tables'', PList (map PStr (pudl_tables_eia860 pc))),
                        (''eia923_years'', PList [PInt y]),
                        (''eia923_tables'', eia923_minimal_tables)])
        \<and> validate_input_eia pc [(''eia923_years'', PList [PInt y])]
          = Inr (PDict [(''eia860_years'', PList [PInt y]),
                        (''eia860_tables'', PList (map PStr (pudl_tables_eia860 pc))),
                        (''eia923_years'', PList [PInt y]),
                        (''eia923_tables'', PList (map PStr (pudl_tables_eia923 pc)))]))"
proof (intro conjI impI)
  assume a: "truthy ys \<and> map_of p ''eia860_years'' = Some ys
      \<and> \<not> truthy (get_or p ''eia923_years'' (PList []))
      \<and> validate_input_eia pc p = Inr r"
  then have r: "r = PDict [(''eia860_years'', ys),
                    (''eia860_tables'', get_or p ''eia860_tables'' (PList (map PStr (pudl_tables_eia860 pc)))),
                    (''eia923_years'', ys),
                    (''eia923_tables'', eia923_minimal_tables)]"
    using eia_only_860 by blast
  show "py_getitem r ''eia923_years'' = Inr ys" by (simp add: r)
  show "py_getitem r ''eia923_tables'' = Inr eia923_minimal_tables" by (simp add: r)
next
  assume a: "truthy ys \<and> map_of p ''eia923_years'' = Some ys
      \<and> \<not> truthy (get_or p ''eia860_years'' (PList []))
      \<and> validate_input_eia pc p = Inr r"
  then have r: "r = PDict [(''eia860_years'', ys),
                    (''eia860_tables'', get_or p ''eia860_tables'' (PList (map PStr (pudl_tables_eia860 pc)))),
                    (''eia923_years'', ys),
                    (''eia923_tables'', get_or p ''eia923_tables'' (PList (map PStr (pudl_tables_eia923 pc))))]"
    using eia_only_923 by blast
  show "py_getitem r ''eia860_years'' = Inr ys" by (simp add: r)
next
  assume a: "set (pudl_tables_eia860 pc) \<subseteq> set (eia860_pudl_tables pc)
      \<and> set (pudl_tables_eia923 pc) \<subseteq> set (eia923_pudl_tables pc)
      \<and> ''boiler_fuel_eia923'' \<in> set (eia923_pudl_tables pc)
      \<and> ''generation_eia923'' \<in> set (eia923_pudl_tables pc)
      \<and> y \<in> set (working_years_eia860 pc) \<and> y \<in> set (working_years_eia923 pc)"
  then show "validate_input_eia pc [(''eia860_years'', PList [PInt y])]
          = Inr (PDict [(''eia860_years'', PList [PInt y]),
                        (''eia860_tables'', PList (map PStr (pudl_tables_eia860 pc))),
                        (''eia923_years'', PList [PInt y]),
                        (''eia923_tables'', eia923_minimal_tables)])"
    using eia_860_alone by blast
  from a show "validate_input_eia pc [(''eia923_years'', PList [PInt y])]
          = Inr (PDict [(''eia860_years'', PList [PInt y]),
                        (''eia860_tables'', PList (map PStr (pudl_tables_eia860 pc))),
                        (''eia923_years'', PList [PInt y]),
                        (''eia923_tables'', PList (map PStr (pudl_tables_eia923 pc)))])"
    using eia_923_alone by blast
qed

text \<open>Witness for C2: the year 2018 under the constants of the small instance.\<close>

theorem eia_years_inferred_witness:
  "validate_input_eia example_constants [(''eia860_years'', PList [PInt 2018])]
     = Inr (PDict [(''eia860_years'', PList [PInt 2018]),
                   (''eia860_tables'', PList [PStr ''plants_eia860'', PStr ''generators_eia860'']),
                   (''eia923_years'', PList [PInt 2018]),
                   (''eia923_tables'', PList [PStr ''boiler_fuel_eia923'', PStr ''generation_eia923''])])
   \<and> validate_input_eia example_constants [(''eia923_years'', PList [PInt 2018])]
     = Inr (PDict [(''eia860_years'', PList [PInt 2018]),
                   (''eia860_tables'', PList [PStr ''plants_eia860'', PStr ''generators_eia860'']),
                   (''eia923_years'', PList [PInt 2018]),
                   (''eia923_tables'', PList [PStr ''boiler_fuel_eia923'', PStr ''generation_eia923'',
                                             PStr ''fuel_receipts_costs_eia923''])])
   \<and> py_getitem (PDict [(''eia860_years'', PList [PInt 2018]),
                   (''eia860_tables'', PList [PStr ''plants_eia860'', PStr ''generators_eia860'']),
                   (''eia923_years'', PList [PInt 2018]),
                   (''eia923_tables'', PList [PStr ''boiler_fuel_eia923'', PStr ''generation_eia923''])])
        ''eia923_years'' = Inr (PList [PInt 2018])
   \<and> py_getitem (PDict [(''eia860_years'', PList [PInt 2018]),
                   (''eia860_tables'', PList [PStr ''plants_eia860'', PStr ''generators_eia860'']),
                   (''eia923_years'', PList [PInt 2018]),
                   (''eia923_tables'', PList [PStr ''boiler_fuel_eia923'', PStr ''generation_eia923'',
                                             PStr ''fuel_receipts_costs_eia923''])])
        ''eia860_years'' = Inr (PList [PInt 2018])"
  using eia_years_inferred
          [of "PList [PInt 2018]" "[(''eia860_years'', PList [PInt 2018])]" example_constants
              "PDict [(''eia860_years'', PList [PInt 2018]),
                   (''eia860_tables'', PList [PStr ''plants_eia860'', PStr ''generators_eia860'']),
                   (''eia923_years'', PList [PInt 2018]),
                   (''eia923_tables'', PList [PStr ''boiler_fuel_eia923'', PStr ''generation_eia923''])]"
              2018]
        eia_years_inferred
          [of "PList [PInt 2018]" "[(''eia923_years'', PList [PInt 2018])]" example_constants
              "PDict [(''eia860_years'', PList [PInt 2018]),
                   (''eia860_tables'', PList [PStr ''plants_eia860'', PStr ''generators_eia860'']),
                   (''eia923_years'', PList [PInt 2018]),
                   (''eia923_tables'', PList [PStr ''boiler_fuel_eia923'', PStr ''generation_eia923'',
                                             PStr ''fuel_receipts_costs_eia923''])]"
              2018]
  by (simp add: example_constants_def eia923_minimal_tables_def get_or_def)

section \<open>The skip signal and the universes of tables, years and states\<close>

lemma ferc1_unchecked:
  assumes "truthy (get_or p ''debug'' (PBool False))
           \<or> \<not> truthy (get_or p ''ferc1_tables'' (PList (map PStr (pudl_tables_ferc1 pc))))
           \<or> all_in (get_or p ''ferc1_tables'' (PList (map PStr (pudl_tables_ferc1 pc))))
                (map PStr (ferc1_pudl_tables pc))"
  shows "validate_input_ferc1 pc p =
          Inr (if \<not> truthy (get_or p ''ferc1_years'' (PList [PNone])) then PDict []
               else PDict [(''ferc1_years'', get_or p ''ferc1_years'' (PList [PNone])),
                           (''ferc1_tables'', get_or p ''ferc1_tables'' (PList (map PStr (pudl_tables_ferc1 pc)))),
                           (''ferc1_testing'', get_or p ''ferc1_testing'' (PBool False)),
                           (''debug'', get_or p ''debug'' (PBool False))])"
  using assms by (auto simp: validate_input_ferc1_def Let_def ebind_def check_all_ok)

lemma ferc1_skip:
  assumes "\<not> truthy (get_or p ''ferc1_years'' (PList [PNone]))"
    and "validate_input_ferc1 pc p = Inr r"
  shows "r = PDict []"
  using assms by (auto simp: validate_input_ferc1_def Let_def ebind_Inr_iff split: if_splits)

lemma ferc1_bad_table:
  assumes "\<not> truthy (get_or p ''debug'' (PBool False))"
    and "map_of p ''ferc1_tables'' = Some (PList ts)"
    and "\<not> list_all (\<lambda>t. py_in_seq t (map PStr (ferc1_pudl_tables pc))) ts"
  shows "\<exists>m. validate_input_ferc1 pc p = Inl (AssertionError m)"
proof -
  from assms(3) have ne: "ts \<noteq> []" by auto
  from check_all_list_fail [OF assms(3)] obtain m where
    "check_all (PList ts) (map PStr (ferc1_pudl_tables pc)) ''Unrecognized FERC table: '' ''.''
      = Inl (AssertionError m)" by blast
  with assms(1,2) ne show ?thesis
    by (simp add: validate_input_ferc1_def Let_def get_or_def ebind_def)
qed

lemma eia_skip:
  assumes "\<not> truthy (get_or p ''eia860_years'' (PList []))"
    and "\<not> truthy (get_or p ''eia923_years'' (PList []))"
    and "validate_input_eia pc p = Inr r"
  shows "r = PNone"
  using assms by (auto simp: validate_input_eia_def Let_def ebind_Inr_iff split: if_splits)

lemma eia_empty:
  assumes "set (pudl_tables_eia860 pc) \<subseteq> set (eia860_pudl_tables pc)"
    and "set (pudl_tables_eia923 pc) \<subseteq> set (eia923_pudl_tables pc)"
  shows "validate_input_eia pc [] = Inr PNone"
  using assms
  by (simp add: validate_input_eia_def Let_def get_or_def ebind_def check_all_ok all_in_strs
      all_in_nil)

lemma ferc1_empty:
  assumes "set (pudl_tables_ferc1 pc) \<subseteq> set (ferc1_pudl_tables pc)"
  shows "validate_input_ferc1 pc [] =
           Inr (PDict [(''ferc1_years'', PList [PNone]),
                       (''ferc1_tables'', PList (map PStr (pudl_tables_ferc1 pc))),
                       (''ferc1_testing'', PBool False), (''debug'', PBool False)])"
  using assms ferc1_unchecked [of "[]" pc] by (simp add: get_or_def all_in_strs)

lemma epacems_skip:
  assumes "\<not> truthy (get_or p ''epacems_years'' (PList [PNone]))
           \<or> \<not> truthy (get_or p ''epacems_states'' (PList []))"
    and "validate_input_epacems pc p = Inr r"
  shows "r = PNone"
  using assms
  by (auto simp: validate_input_epacems_def Let_def ebind_Inr_iff split: if_splits)

lemma epacems_empty: "validate_input_epacems pc [] = Inr PNone"
  by (simp add: validate_input_epacems_def validate_input_partition_def get_or_def ebind_def)

lemma glue_skip:
  assumes "\<not> truthy (get_or p ''ferc1'' (PBool False))" and "\<not> truthy (get_or p ''eia'' (PBool False))"
  shows "validate_input_glue p = Inr (PDict [])"
  using assms by (simp add: validate_input_glue_def)

lemma eia_bad_860_table:
  assumes "map_of p ''eia860_tables'' = Some (PList ts)"
    and "\<not> list_all (\<lambda>t. py_in_seq t (map PStr (eia860_pudl_tables pc))) ts"
  shows "\<exists>m. validate_input_eia pc p = Inl (AssertionError m)"
proof -
  from assms(2) have ne: "ts \<noteq> []" by auto
  from check_all_list_fail [OF assms(2)] obtain m where
    "check_all (PList ts) (map PStr (eia860_pudl_tables pc)) ''Unrecognized EIA 860 table: '' []
      = Inl (AssertionError m)" by blast
  with assms(1) ne show ?thesis
    by (simp add: validate_input_eia_def Let_def get_or_def ebind_def)
qed

lemma eia_bad_860_year:
  assumes "map_of p ''eia860_tables'' = None" and "map_of p ''eia923_tables'' = None"
    and "set (pudl_tables_eia860 pc) \<subseteq> set (eia860_pudl_tables pc)"
    and "set (pudl_tables_eia923 pc) \<subseteq> set (eia923_pudl_tables pc)"
    and "''boiler_fuel_eia923'' \<in> set (eia923_pudl_tables pc)"
    and "''generation_eia923'' \<in> set (eia923_pudl_tables pc)"
    and "map_of p ''eia860_years'' = Some (PList ys)"
    and "\<not> list_all (\<lambda>y. py_in_seq y (map PInt (working_years_eia860 pc))) ys"
  shows "\<exists>m. validate_input_eia pc p = Inl (AssertionError m)"
proof -
  from assms(8) have ne: "ys \<noteq> []" by auto
  from check_all_list_fail [OF assms(8)] obtain m where
    "check_all (PList ys) (map PInt (working_years_eia860 pc)) ''Unrecognized EIA 860 year: '' []
      = Inl (AssertionError m)" by blast
  with assms(1-7) ne show ?thesis
    by (simp add: validate_input_eia_def Let_def get_or_def ebind_def check_all_ok all_in_strs
      all_in_minimal truthy_minimal)
qed

lemma eia_returned_in_universe:
  assumes "validate_input_eia pc p = Inr (PDict d)"
  shows "(\<exists>t. map_of d ''eia860_tables'' = Some t
              \<and> (truthy t \<longrightarrow> all_in t (map PStr (eia860_pudl_tables pc))))
       \<and> (\<exists>t. map_of d ''eia923_tables'' = Some t
              \<and> (truthy t \<longrightarrow> all_in t (map PStr (eia923_pudl_tables pc))))
       \<and> (\<exists>y. map_of d ''eia860_years'' = Some y \<and> all_in y (map PInt (working_years_eia860 pc)))
       \<and> (\<exists>y. map_of d ''eia923_years'' = Some y \<and> all_in y (map PInt (working_years_eia923 pc)))"
  using assms
  unfolding validate_input_eia_def Let_def ebind_Inr_iff
  by (auto simp: check_all_ok_iff split: if_splits)

lemma eia_skip_in_universe:
  assumes "validate_input_eia pc p = Inr PNone"
  shows "(truthy (get_or p ''eia860_tables'' (PList (map PStr (pudl_tables_eia860 pc))))
            \<longrightarrow> all_in (get_or p ''eia860_tables'' (PList (map PStr (pudl_tables_eia860 pc))))
                  (map PStr (eia860_pudl_tables pc)))
       \<and> (truthy (get_or p ''eia923_tables'' (PList (map PStr (pudl_tables_eia923 pc))))
            \<longrightarrow> all_in (get_or p ''eia923_tables'' (PList (map PStr (pudl_tables_eia923 pc))))
                  (map PStr (eia923_pudl_tables pc)))"
  using assms
  unfolding validate_input_eia_def Let_def ebind_Inr_iff
  by (auto simp: check_all_ok_iff split: if_splits)

lemma epacems_unchecked:
  assumes "map_of p ''partition'' = None"
    and "map_of p ''epacems_states'' = Some (PList (PStr s # ss))"
    and "map lower_char s \<noteq> ''all''"
    and "truthy (get_or p ''epacems_years'' (PList [PNone]))"
  shows "validate_input_epacems pc p =
           Inr (PDict [(''epacems_years'', get_or p ''epacems_years'' (PList [PNone])),
                       (''epacems_states'', PList (PStr s # ss)),
                       (''partition'', PDict [(''partition'', PNone)])])"
  using assms
  by (simp add: validate_input_epacems_def validate_input_partition_def get_or_def ebind_def)

text \<open>
  Claim C5, as amended. For four of the five kinds a raw configuration whose deciding
  dimension is empty after defaulting is never validated to a populated configuration;
  whenever the validator returns, it returns the skip signal:
  EIA returns \<^verbatim>\<open>None\<close> when both year lists are falsy, FERC 1 returns \<^verbatim>\<open>{}\<close> when its year
  list is falsy, EPA CEMS returns \<^verbatim>\<open>None\<close> when its years or its states are falsy, and
  glue returns \<^verbatim>\<open>{}\<close> when both flags are falsy. An empty list of tables is no such
  dimension for any validator, and the validator of EPA IPM has no skip signal at all:
  it always returns a configuration holding its list of tables. Validating the empty
  raw configuration yields \<^verbatim>\<open>None\<close> for EIA and the fully defaulted configuration for
  FERC 1 (when the default tables lie in the universes), \<^verbatim>\<open>None\<close> for EPA CEMS, \<^verbatim>\<open>{}\<close> for
  glue and \<^verbatim>\<open>{'epaipm_tables': [None]}\<close> for EPA IPM.
\<close>

theorem skip_signal_by_kind:
  "(\<not> truthy (get_or p ''eia860_years'' (PList []))
      \<and> \<not> truthy (get_or p ''eia923_years'' (PList []))
      \<and> validate_input_eia pc p = Inr r \<longrightarrow> r = PNone)
   \<and> (\<not> truthy (get_or p ''ferc1_years'' (PList [PNone]))
      \<and> validate_input_ferc1 pc p = Inr r \<longrightarrow> r = PDict [])
   \<and> ((\<not> truthy (get_or p ''epacems_years'' (PList [PNone]))
        \<or> \<not> truthy (get_or p ''epacems_states'' (PList [])))
      \<and> validate_input_epacems pc p = Inr r \<longrightarrow> r = PNone)
   \<and> (\<not> truthy (get_or p ''ferc1'' (PBool False)) \<and> \<not> truthy (get_or p ''eia'' (PBool False))
      \<longrightarrow> validate_input_glue p = Inr (PDict []))
   \<and> validate_input_epaipm p
        = Inr (PDict [(''epaipm_tables'', get_or p ''epaipm_tables'' (PList [PNone]))])
   \<and> (set (pudl_tables_eia860 pc) \<subseteq> set (eia860_pudl_tables pc)
      \<and> set (pudl_tables_eia923 pc) \<subseteq> set (eia923_pudl_tables pc)
      \<longrightarrow> validate_input_eia pc [] = Inr PNone)
   \<and> (set (pudl_tables_ferc1 pc) \<subseteq> set (ferc1_pudl_tables pc)
      \<longrightarrow> validate_input_ferc1 pc [] =
            Inr (PDict [(''ferc1_years'', PList [PNone]),
                        (''ferc1_tables'', PList (map PStr (pudl_tables_ferc1 pc))),
                        (''ferc1_testing'', PBool False), (''debug'', PBool False)]))
   \<and> validate_input_epacems pc [] = Inr PNone
   \<and> validate_input_glue [] = Inr (PDict [])
   \<and> validate_input_epaipm [] = Inr (PDict [(''epaipm_tables'', PList [PNone])])"
proof (intro conjI impI)
  show "validate_input_epaipm p
        = Inr (PDict [(''epaipm_tables'', get_or p ''epaipm_tables'' (PList [PNone]))])"
    by (simp add: validate_input_epaipm_def)
  show "validate_input_epacems pc [] = Inr PNone" by (rule epacems_empty)
  show "validate_input_glue [] = Inr (PDict [])"
    by (simp add: validate_input_glue_def get_or_def)
  show "validate_input_epaipm [] = Inr (PDict [(''epaipm_tables'', PList [PNone])])"
    by (simp add: validate_input_epaipm_def get_or_def)
qed (use eia_skip ferc1_skip epacems_skip glue_skip eia_empty ferc1_empty in blast)+

text \<open>Witness for C5: the empty configuration, and FERC 1 with an empty list of years.\<close>

theorem skip_signal_by_kind_witness:
  "validate_input_eia example_constants [] = Inr PNone
   \<and> validate_input_ferc1 example_constants [(''ferc1_years'', PList [])] = Inr (PDict [])
   \<and> validate_input_epacems example_constants [] = Inr PNone
   \<and> validate_input_glue [] = Inr (PDict [])
   \<and> validate_input_epaipm [] = Inr (PDict [(''epaipm_tables'', PList [PNone])])
   \<and> validate_input_ferc1 example_constants []
      = Inr (PDict [(''ferc1_years'', PList [PNone]),
                    (''ferc1_tables'', PList [PStr ''fuel_ferc1'', PStr ''plants_steam_ferc1'']),
                    (''ferc1_testing'', PBool False), (''debug'', PBool False)])"
  using skip_signal_by_kind [of "[]" example_constants PNone]
        skip_signal_by_kind [of "[(''ferc1_years'', PList [])]" example_constants "PDict []"]
  by (simp add: example_constants_def get_or_def validate_input_ferc1_def ebind_def
      check_all_def py_in_seq_def)

text \<open>
  Counterexample to C5 as stated: the tables requested are empty, and the validators of
  FERC 1 and of EPA IPM return a populated (truthy) configuration, not the skip signal.
\<close>

theorem populated_config_with_empty_tables:
  "validate_input_ferc1 example_constants
     [(''ferc1_years'', PList [PInt 2018]), (''ferc1_tables'', PList [])]
   = Inr (PDict [(''ferc1_years'', PList [PInt 2018]), (''ferc1_tables'', PList []),
                 (''ferc1_testing'', PBool False), (''debug'', PBool False)])
   \<and> validate_input_epaipm [(''epaipm_tables'', PList [])]
     = Inr (PDict [(''epaipm_tables'', PList [])])
   \<and> truthy (PDict [(''epaipm_tables'', PList [])])"
  by (simp add: validate_input_ferc1_def validate_input_epaipm_def get_or_def ebind_def)

text \<open>
  Claim C6, as amended. The EIA validator never returns, neither a configuration nor
  the skip signal, when a table of a non-empty list of tables it resolved or a year of
  a list of years it resolved lies outside the fixed universes: it raises. A listed 860
  table outside its universe raises an assertion error, and so does a listed 860 year
  when the tables are the defaults. A list of 923 tables that the fixed pair replaces is
  not checked, and the EIA validator has no debug mode. The FERC 1 validator raises an
  assertion error for a listed table outside the universe unless \<^verbatim>\<open>debug\<close> is truthy;
  with \<^verbatim>\<open>debug\<close> truthy, with no tables, or with tables inside the universe it returns,
  whatever the years are. The years of FERC 1, the years and states of EPA CEMS and the
  tables of EPA IPM are checked against no universe.
\<close>

theorem universe_checks:
  "(validate_input_eia pc p = Inr PNone \<longrightarrow>
      (truthy (get_or p ''eia860_tables'' (PList (map PStr (pudl_tables_eia860 pc))))
         \<longrightarrow> all_in (get_or p ''eia860_tables'' (PList (map PStr (pudl_tables_eia860 pc))))
               (map PStr (eia860_pudl_tables pc)))
    \<and> (truthy (get_or p ''eia923_tables'' (PList (map PStr (pudl_tables_eia923 pc))))
         \<longrightarrow> all_in (get_or p ''eia923_tables'' (PList (map PStr (pudl_tables_eia923 pc))))
               (map PStr (eia923_pudl_tables pc))))
   \<and> (validate_input_eia pc p = Inr (PDict d) \<longrightarrow>
      (\<exists>t. map_of d ''eia860_tables'' = Some t
            \<and> (truthy t \<longrightarrow> all_in t (map PStr (eia860_pudl_tables pc))))
    \<and> (\<exists>t. map_of d ''eia923_tables'' = Some t
            \<and> (truthy t \<longrightarrow> all_in t (map PStr (eia923_pudl_tables pc))))
    \<and> (\<exists>y. map_of d ''eia860_years'' = Some y \<and> all_in y (map PInt (working_years_eia860 pc)))
    \<and> (\<exists>y. map_of d ''eia923_years'' = Some y \<and> all_in y (map PInt (working_years_eia923 pc))))
   \<and> (map_of p ''eia860_tables'' = Some (PList ts)
      \<and> \<not> list_all (\<lambda>t. py_in_seq t (map PStr (eia860_pudl_tables pc))) ts
      \<longrightarrow> (\<exists>m. validate_input_eia pc p = Inl (AssertionError m)))
   \<and> (map_of p ''eia860_tables'' = None \<and> map_of p ''eia923_tables'' = None
      \<and> set (pudl_tables_eia860 pc) \<subseteq> set (eia860_pudl_tables pc)
      \<and> set (pudl_tables_eia923 pc) \<subseteq> set (eia923_pudl_tables pc)
      \<and> ''boiler_fuel_eia923'' \<in> set (eia923_pudl_tables pc)
      \<and> ''generation_eia923'' \<in> set (eia923_pudl_tables pc)
      \<and> map_of p ''eia860_years'' = Some (PList ys)
      \<and> \<not> list_all (\<lambda>y. py_in_seq y (map PInt (working_years_eia860 pc))) ys
      \<longrightarrow> (\<exists>m. validate_input_eia pc p = Inl (AssertionError m)))
   \<and> (\<not> truthy (get_or p ''debug'' (PBool False))
      \<and> map_of p ''ferc1_tables'' = Some (PList ts)
      \<and> \<not> list_all (\<lambda>t. py_in_seq t (map PStr (ferc1_pudl_tables pc))) ts
      \<longrightarrow> (\<exists>m. validate_input_ferc1 pc p = Inl (AssertionError m)))
   \<and> (truthy (get_or p ''debug'' (PBool False))
        \<or> \<not> truthy (get_or p ''ferc1_tables'' (PList (map PStr (pudl_tables_ferc1 pc))))
        \<or> all_in (get_or p ''ferc1_tables'' (PList (map PStr (pudl_tables_ferc1 pc))))
             (map PStr (ferc1_pudl_tables pc))
      \<longrightarrow> validate_input_ferc1 pc p =
            Inr (if \<not> truthy (get_or p ''ferc1_years'' (PList [PNone])) then PDict []
                 else PDict [(''ferc1_years'', get_or p ''ferc1_years'' (PList [PNone])),
                             (''ferc1_tables'', get_or p ''ferc1_tables'' (PList (map PStr (pudl_tables_ferc1 pc)))),
                             (''ferc1_testing'', get_or p ''ferc1_testing'' (PBool False)),
                             (''debug'', get_or p ''debug'' (PBool False))]))
   \<and> (map_of p ''partition'' = None
      \<and> map_of p ''epacems_states'' = Some (PList (PStr s # ss))
      \<and> map lower_char s \<noteq> ''all''
      \<and> truthy (get_or p ''epacems_years'' (PList [PNone]))
      \<longrightarrow> validate_input_epacems pc p =
            Inr (PDict [(''epacems_years'', get_or p ''epacems_years'' (PList [PNone])),
                        (''epacems_states'', PList (PStr s # ss)),
                        (''partition'', PDict [(''partition'', PNone)])]))
   \<and> validate_input_epaipm p
        = Inr (PDict [(''epaipm_tables'', get_or p ''epaipm_tables'' (PList [PNone]))])"
proof (intro conjI)
  show "validate_input_epaipm p
        = Inr (PDict [(''epaipm_tables'', get_or p ''epaipm_tables'' (PList [PNone]))])"
    by (simp add: validate_input_epaipm_def)
next
  show "validate_input_eia pc p = Inr PNone \<longrightarrow>
      (truthy (get_or p ''eia860_tables'' (PList (map PStr (pudl_tables_eia860 pc))))
         \<longrightarrow> all_in (get_or p ''eia860_tables'' (PList (map PStr (pudl_tables_eia860 pc))))
               (map PStr (eia860_pudl_tables pc)))
    \<and> (truthy (get_or p ''eia923_tables'' (PList (map PStr (pudl_tables_eia923 pc))))
         \<longrightarrow> all_in (get_or p ''eia923_tables'' (PList (map PStr (pudl_tables_eia923 pc))))
               (map PStr (eia923_pudl_tables pc)))"
    using eia_skip_in_universe by blast
next
  show "validate_input_eia pc p = Inr (PDict d) \<longrightarrow>
      (\<exists>t. map_of d ''eia860_tables'' = Some t
            \<and> (truthy t \<longrightarrow> all_in t (map PStr (eia860_pudl_tables pc))))
    \<and> (\<exists>t. map_of d ''eia923_tables'' = Some t
            \<and> (truthy t \<longrightarrow> all_in t (map PStr (eia923_pudl_tables pc))))
    \<and> (\<exists>y. map_of d ''eia860_years'' = Some y \<and> all_in y (map PInt (working_years_eia860 pc)))
    \<and> (\<exists>y. map_of d ''eia923_years'' = Some y \<and> all_in y (map PInt (working_years_eia923 pc)))"
    using eia_returned_in_universe by blast
next
  show "map_of p ''eia860_tables'' = Some (PList ts)
      \<and> \<not> list_all (\<lambda>t. py_in_seq t (map PStr (eia860_pudl_tables pc))) ts
      \<longrightarrow> (\<exists>m. validate_input_eia pc p = Inl (AssertionError m))"
    using eia_bad_860_table by blast
next
  show "map_of p ''eia860_tables'' = None \<and> map_of p ''eia923_tables'' = None
      \<and> set (pudl_tables_eia860 pc) \<subseteq> set (eia860_pudl_tables pc)
      \<and> set (pudl_tables_eia923 pc) \<subseteq> set (eia923_pudl_tables pc)
      \<and> ''boiler_fuel_eia923'' \<in> set (eia923_pudl_tables pc)
      \<and> ''generation_eia923'' \<in> set (eia923_pudl_tables pc)
      \<and> map_of p ''eia860_years'' = Some (PList ys)
      \<and> \<not> list_all (\<lambda>y. py_in_seq y (map PInt (working_years_eia860 pc))) ys
      \<longrightarrow> (\<exists>m. validate_input_eia pc p = Inl (AssertionError m))"
    using eia_bad_860_year [of p pc ys] by blast
next
  show "\<not> truthy (get_or p ''debug'' (PBool False))
      \<and> map_of p ''ferc1_tables'' = Some (PList ts)
      \<and> \<not> list_all (\<lambda>t. py_in_seq t (map PStr (ferc1_pudl_tables pc))) ts
      \<longrightarrow> (\<exists>m. validate_input_ferc1 pc p = Inl (AssertionError m))"
    using ferc1_bad_table by blast
next
  show "truthy (get_or p ''debug'' (PBool False))
        \<or> \<not> truthy (get_or p ''ferc1_tables'' (PList (map PStr (pudl_tables_ferc1 pc))))
        \<or> all_in (get_or p ''ferc1_tables'' (PList (map PStr (pudl_tables_ferc1 pc))))
             (map PStr (ferc1_pudl_tables pc))
      \<longrightarrow> validate_input_ferc1 pc p =
            Inr (if \<not> truthy (get_or p ''ferc1_years'' (PList [PNone])) then PDict []
                 else PDict [(''ferc1_years'', get_or p ''ferc1_years'' (PList [PNone])),
                             (''ferc1_tables'', get_or p ''ferc1_tables'' (PList (map PStr (pudl_tables_ferc1 pc)))),
                             (''ferc1_testing'', get_or p ''ferc1_testing'' (PBool False)),
                             (''debug'', get_or p ''debug'' (PBool False))])"
    using ferc1_unchecked by blast
next
  show "map_of p ''partition'' = None
      \<and> map_of p ''epacems_states'' = Some (PList (PStr s # ss))
      \<and> map lower_char s \<noteq> ''all''
      \<and> truthy (get_or p ''epacems_years'' (PList [PNone]))
      \<longrightarrow> validate_input_epacems pc p =
            Inr (PDict [(''epacems_years'', get_or p ''epacems_years'' (PList [PNone])),
                        (''epacems_states'', PList (PStr s # ss)),
                        (''partition'', PDict [(''partition'', PNone)])])"
    using epacems_unchecked by blast
qed

text \<open>Witness for C6: a table and a year outside the universes of the small instance.\<close>

theorem universe_checks_witness:
  "validate_input_eia example_constants [(''eia860_tables'', PList [PStr ''bogus''])]
     = Inl (AssertionError ''Unrecognized EIA 860 table: bogus'')
   \<and> (\<exists>m. validate_input_eia example_constants [(''eia860_years'', PList [PInt 1999])]
            = Inl (AssertionError m))
   \<and> validate_input_ferc1 example_constants [(''ferc1_tables'', PList [PStr ''bogus''])]
     = Inl (AssertionError ''Unrecognized FERC table: bogus.'')
   \<and> validate_input_ferc1 example_constants
        [(''ferc1_tables'', PList [PStr ''bogus'']), (''debug'', PBool True)]
     = Inr (PDict [(''ferc1_years'', PList [PNone]), (''ferc1_tables'', PList [PStr ''bogus'']),
                   (''ferc1_testing'', PBool False), (''debug'', PBool True)])
   \<and> validate_input_epacems example_constants
        [(''epacems_years'', PList [PInt 1800]), (''epacems_states'', PList [PStr ''ZZ''])]
     = Inr (PDict [(''epacems_years'', PList [PInt 1800]),
                   (''epacems_states'', PList [PStr ''ZZ'']),
                   (''partition'', PDict [(''partition'', PNone)])])"
  using universe_checks [of example_constants "[(''eia860_tables'', PList [PStr ''bogus''])]" "[]"
          "[PStr ''bogus'']" "[]" "[]" "[]"]
        universe_checks [of example_constants "[(''eia860_years'', PList [PInt 1999])]" "[]"
          "[]" "[PInt 1999]" "[]" "[]"]
        universe_checks [of example_constants "[(''ferc1_tables'', PList [PStr ''bogus''])]" "[]"
          "[PStr ''bogus'']" "[]" "[]" "[]"]
        universe_checks [of example_constants
          "[(''ferc1_tables'', PList [PStr ''bogus'']), (''debug'', PBool True)]" "[]"
          "[PStr ''bogus'']" "[]" "[]" "[]"]
        universe_checks [of example_constants
          "[(''epacems_years'', PList [PInt 1800]), (''epacems_states'', PList [PStr ''ZZ''])]" "[]"
          "[]" "[]" "''ZZ''" "[]"]
  by (simp add: example_constants_def get_or_def py_in_seq_def lower_char_def
      validate_input_eia_def validate_input_ferc1_def ebind_def check_all_def py_str_def)

text \<open>
  Counterexample to C6 as stated: a state that is no key of \<^verbatim>\<open>pc.cems_states\<close>, the year
  1800 and an unknown table of EPA IPM are requested, and the validators of EPA CEMS,
  FERC 1 and EPA IPM return configurations without raising.
\<close>

theorem unchecked_dimensions:
  "validate_input_epacems example_constants
     [(''epacems_years'', PList [PInt 1800]), (''epacems_states'', PList [PStr ''ZZ''])]
   = Inr (PDict [(''epacems_years'', PList [PInt 1800]),
                 (''epacems_states'', PList [PStr ''ZZ'']),
                 (''partition'', PDict [(''partition'', PNone)])])
   \<and> ''ZZ'' \<notin> set (cems_states example_constants)
   \<and> validate_input_ferc1 example_constants [(''ferc1_years'', PList [PInt 1800])]
     = Inr (PDict [(''ferc1_years'', PList [PInt 1800]),
                   (''ferc1_tables'', PList [PStr ''fuel_ferc1'', PStr ''plants_steam_ferc1'']),
                   (''ferc1_testing'', PBool False), (''debug'', PBool False)])
   \<and> validate_input_epaipm [(''epaipm_tables'', PList [PStr ''bogus''])]
     = Inr (PDict [(''epaipm_tables'', PList [PStr ''bogus''])])"
  by (simp add: example_constants_def get_or_def py_in_seq_def lower_char_def
      validate_input_epacems_def validate_input_partition_def validate_input_epaipm_def
      validate_input_ferc1_def ebind_def check_all_def)

section \<open>Running the adapters\<close>

lemma pbind_plift_Inr [simp]: "pbind (plift (Inr x)) f s = f x s"
  by (simp add: pbind_def plift_def)

lemma pbind_plift_Inl [simp]: "pbind (plift (Inl e)) f s = (Inl e, s)"
  by (simp add: pbind_def plift_def)

lemma pbind_preturn [simp]: "pbind (preturn x) f s = f x s"
  by (simp add: pbind_def preturn_def)

lemma pbind_praise [simp]: "pbind (praise e) f s = (Inl e, s)"
  by (simp add: pbind_def praise_def)

lemma pbind_emit [simp]: "pbind (emit ev) f s = f () (s @ [ev])"
  by (simp add: pbind_def emit_def)

lemma preturn_apply [simp]: "preturn x s = (Inr x, s)"
  by (simp add: preturn_def)

lemma praise_apply [simp]: "praise e s = (Inl e, s)"
  by (simp add: praise_def)

lemma pbind_plift_cases:
  "pbind (plift m) f s = (case m of Inl e \<Rightarrow> (Inl e, s) | Inr x \<Rightarrow> f x s)"
  by (cases m) simp_all

lemma pbind_Inr_iff:
  "pbind m f s = (Inr y, s') \<longleftrightarrow> (\<exists>x s1. m s = (Inr x, s1) \<and> f x s1 = (Inr y, s'))"
  by (auto simp: pbind_def split: prod.splits sum.splits)

lemma plift_Inr_iff [simp]: "plift m s = (Inr x, s') \<longleftrightarrow> m = Inr x \<and> s' = s"
  by (auto simp: plift_def)

lemma emit_apply [simp]: "emit ev s = (Inr (), s @ [ev])"
  by (simp add: emit_def)

lemma dict_dump_apply [simp]: "dict_dump dfs label s = (Inr (), s @ [DictDump label (map fst dfs)])"
  by (simp add: dict_dump_def)

lemma load_static_tables_ferc_apply [simp]:
  "load_static_tables_ferc s
     = (Inr static_tables_ferc, s @ [DictDump ''Static FERC Tables'' static_tables_ferc])"
  by (simp add: load_static_tables_ferc_def)

lemma load_static_tables_eia_apply [simp]:
  "load_static_tables_eia s
     = (Inr static_tables_eia, s @ [DictDump ''Static EIA Tables'' static_tables_eia])"
  by (simp add: load_static_tables_eia_def)

lemma load_static_tables_epaipm_apply [simp]:
  "load_static_tables_epaipm s
     = (Inr static_tables_epaipm, s @ [DictDump ''Static IPM Tables'' static_tables_epaipm])"
  by (simp add: load_static_tables_epaipm_def)

lemma pbind_dict_dump [simp]:
  "pbind (dict_dump dfs label) f s = f () (s @ [DictDump label (map fst dfs)])"
  by (simp add: dict_dump_def)

lemma pbind_load_static_tables_ferc [simp]:
  "pbind load_static_tables_ferc f s
     = f static_tables_ferc (s @ [DictDump ''Static FERC Tables'' static_tables_ferc])"
  by (simp add: load_static_tables_ferc_def pbind_def)

lemma pbind_load_static_tables_eia [simp]:
  "pbind load_static_tables_eia f s
     = f static_tables_eia (s @ [DictDump ''Static EIA Tables'' static_tables_eia])"
  by (simp add: load_static_tables_eia_def pbind_def)

lemma pbind_load_static_tables_epaipm [simp]:
  "pbind load_static_tables_epaipm f s
     = f static_tables_epaipm (s @ [DictDump ''Static IPM Tables'' static_tables_epaipm])"
  by (simp add: load_static_tables_epaipm_def pbind_def)

section \<open>The glue adapter with both flags false\<close>

lemma glue_both_false:
  assumes "\<not> truthy (get_or p ''ferc1'' (PBool False))" and "\<not> truthy (get_or p ''eia'' (PBool False))"
  shows "etl_glue col p s = (Inl (KeyError (PStr ''ferc1'')), s)"
  using assms by (simp add: etl_glue_def validate_input_glue_def)

text \<open>
  Claim C4 at its failing inputs. When both flags are falsy (or absent) the claim wants
  the glue adapter to return an empty collection of table names without an exception;
  \<^verbatim>\<open>_validate_input_glue\<close> returns \<^verbatim>\<open>{}\<close>, and \<^verbatim>\<open>_etl_glue\<close> subscripts it with \<^verbatim>\<open>'ferc1'\<close>:
  the adapter raises \<^verbatim>\<open>KeyError('ferc1')\<close> and writes nothing.
\<close>

theorem glue_both_false_raises:
  "\<not> truthy (get_or etl_params ''ferc1'' (PBool False))
   \<and> \<not> truthy (get_or etl_params ''eia'' (PBool False))
   \<longrightarrow> etl_glue col etl_params s = (Inl (KeyError (PStr ''ferc1'')), s)"
  using glue_both_false by blast

text \<open>Witness for C4: both flags false, and both flags absent.\<close>

theorem glue_both_false_raises_witness:
  "etl_glue example_collaborators [(''ferc1'', PBool False), (''eia'', PBool False)] []
     = (Inl (KeyError (PStr ''ferc1'')), [])
   \<and> etl_glue example_collaborators [] [] = (Inl (KeyError (PStr ''ferc1'')), [])"
  using glue_both_false_raises
          [of "[(''ferc1'', PBool False), (''eia'', PBool False)]" example_collaborators "[]"]
        glue_both_false_raises [of "[]" example_collaborators "[]"]
  by (simp add: get_or_def)

section \<open>Static tables\<close>

lemma epaipm_static:
  assumes "etl_epaipm col p s = (Inr tbls, s')"
  shows "set static_tables_epaipm \<subseteq> set tbls
         \<and> DictDump ''Static IPM Tables'' static_tables_epaipm \<in> set s'"
  using assms
  by (auto simp: etl_epaipm_def validate_input_epaipm_def pbind_Inr_iff)

lemma ferc1_validated_shape:
  assumes "validate_input_ferc1 pc p = Inr r"
  shows "r = PDict [] \<or>
         (truthy (get_or p ''ferc1_years'' (PList [PNone])) \<and>
          r = PDict [(''ferc1_years'', get_or p ''ferc1_years'' (PList [PNone])),
                     (''ferc1_tables'', get_or p ''ferc1_tables'' (PList (map PStr (pudl_tables_ferc1 pc)))),
                     (''ferc1_testing'', get_or p ''ferc1_testing'' (PBool False)),
                     (''debug'', get_or p ''debug'' (PBool False))])"
  using assms
  unfolding validate_input_ferc1_def Let_def ebind_Inr_iff
  by (auto split: if_splits)

lemma ferc1_static:
  assumes "etl_ferc1_pkg col pc p s = (Inr tbls, s')"
    and "truthy (get_or p ''ferc1_tables'' (PList (map PStr (pudl_tables_ferc1 pc))))"
  shows "set static_tables_ferc \<subseteq> set tbls
         \<and> DictDump ''Static FERC Tables'' static_tables_ferc \<in> set s'"
proof -
  from assms(1) obtain r where v: "validate_input_ferc1 pc p = Inr r"
    by (auto simp: etl_ferc1_pkg_def pbind_Inr_iff)
  from ferc1_validated_shape [OF v] show ?thesis
  proof
    assume "r = PDict []"
    with assms(1) v show ?thesis by (simp add: etl_ferc1_pkg_def)
  next
    assume "truthy (get_or p ''ferc1_years'' (PList [PNone])) \<and>
          r = PDict [(''ferc1_years'', get_or p ''ferc1_years'' (PList [PNone])),
                     (''ferc1_tables'', get_or p ''ferc1_tables'' (PList (map PStr (pudl_tables_ferc1 pc)))),
                     (''ferc1_testing'', get_or p ''ferc1_testing'' (PBool False)),
                     (''debug'', get_or p ''debug'' (PBool False))]"
    with assms v show ?thesis
      by (auto simp: etl_ferc1_pkg_def pbind_Inr_iff)
  qed
qed

lemma ferc1_no_static:
  assumes "etl_ferc1_pkg col pc p s = (Inr tbls, s')"
    and "\<not> truthy (get_or p ''ferc1_tables'' (PList (map PStr (pudl_tables_ferc1 pc))))"
  shows "tbls = [] \<and> s' = s"
proof -
  from assms(1) obtain r where v: "validate_input_ferc1 pc p = Inr r"
    by (auto simp: etl_ferc1_pkg_def pbind_Inr_iff)
  from ferc1_validated_shape [OF v] show ?thesis
  proof
    assume "r = PDict []"
    with assms(1) v show ?thesis by (simp add: etl_ferc1_pkg_def)
  next
    assume "truthy (get_or p ''ferc1_years'' (PList [PNone])) \<and>
          r = PDict [(''ferc1_years'', get_or p ''ferc1_years'' (PList [PNone])),
                     (''ferc1_tables'', get_or p ''ferc1_tables'' (PList (map PStr (pudl_tables_ferc1 pc)))),
                     (''ferc1_testing'', get_or p ''ferc1_testing'' (PBool False)),
                     (''debug'', get_or p ''debug'' (PBool False))]"
    with assms v show ?thesis
      by (auto simp: etl_ferc1_pkg_def)
  qed
qed

lemma eia_validated_shape:
  assumes "validate_input_eia pc p = Inr r"
  shows "r = PNone \<or>
         (\<exists>y860 y923 t923. truthy y860 \<and> truthy y923 \<and>
            r = PDict [(''eia860_years'', y860),
                       (''eia860_tables'', get_or p ''eia860_tables'' (PList (map PStr (pudl_tables_eia860 pc)))),
                       (''eia923_years'', y923), (''eia923_tables'', t923)])"
  using assms
  unfolding validate_input_eia_def Let_def ebind_Inr_iff
  by (auto split: if_splits)

lemma eia_static:
  assumes "etl_eia_pkg col pc p s = (Inr tbls, s')"
  shows "(tbls = [] \<and> s' = s
          \<and> \<not> truthy (get_or p ''eia860_tables'' (PList (map PStr (pudl_tables_eia860 pc)))))
       \<or> (set static_tables_eia \<subseteq> set tbls
          \<and> DictDump ''Static EIA Tables'' static_tables_eia \<in> set s')"
proof -
  from assms obtain r where v: "validate_input_eia pc p = Inr r"
    by (auto simp: etl_eia_pkg_def pbind_Inr_iff)
  from eia_validated_shape [OF v] show ?thesis
  proof (elim disjE exE conjE)
    assume "r = PNone"
    with assms v show ?thesis by (simp add: etl_eia_pkg_def)
  next
    fix y860 y923 t923
    assume "truthy y860" "truthy y923"
      and "r = PDict [(''eia860_years'', y860),
                       (''eia860_tables'', get_or p ''eia860_tables'' (PList (map PStr (pudl_tables_eia860 pc)))),
                       (''eia923_years'', y923), (''eia923_tables'', t923)]"
    with assms v show ?thesis
      by (auto simp: etl_eia_pkg_def pbind_Inr_iff split: if_splits)
  qed
qed

lemma eia_guard:
  assumes "etl_eia_pkg col pc p s = (Inr tbls, s')"
  shows "\<exists>y860 t860 y923 t923.
           validate_input_eia pc p
             = Inr (PDict [(''eia860_years'', y860), (''eia860_tables'', t860),
                           (''eia923_years'', y923), (''eia923_tables'', t923)])
           \<and> ((\<not> truthy t923 \<or> \<not> truthy y923) \<and> (\<not> truthy t860 \<or> \<not> truthy y860)
                \<longrightarrow> tbls = [] \<and> s' = s)
           \<and> (\<not> ((\<not> truthy t923 \<or> \<not> truthy y923) \<and> (\<not> truthy t860 \<or> \<not> truthy y860))
                \<longrightarrow> set static_tables_eia \<subseteq> set tbls
                    \<and> DictDump ''Static EIA Tables'' static_tables_eia \<in> set s')"
proof -
  from assms obtain r where v: "validate_input_eia pc p = Inr r"
    by (auto simp: etl_eia_pkg_def pbind_Inr_iff)
  from eia_validated_shape [OF v] show ?thesis
  proof (elim disjE exE conjE)
    assume "r = PNone"
    with assms v show ?thesis by (simp add: etl_eia_pkg_def)
  next
    fix y860 y923 t923
    assume t: "truthy y860" "truthy y923"
      and r: "r = PDict [(''eia860_years'', y860),
                       (''eia860_tables'', get_or p ''eia860_tables'' (PList (map PStr (pudl_tables_eia860 pc)))),
                       (''eia923_years'', y923), (''eia923_tables'', t923)]"
    let ?t860 = "get_or p ''eia860_tables'' (PList (map PStr (pudl_tables_eia860 pc)))"
    have skip: "tbls = [] \<and> s' = s"
      if "(\<not> truthy t923 \<or> \<not> truthy y923) \<and> (\<not> truthy ?t860 \<or> \<not> truthy y860)"
      using assms v r t that by (auto simp: etl_eia_pkg_def)
    have load: "set static_tables_eia \<subseteq> set tbls
                    \<and> DictDump ''Static EIA Tables'' static_tables_eia \<in> set s'"
      if "\<not> ((\<not> truthy t923 \<or> \<not> truthy y923) \<and> (\<not> truthy ?t860 \<or> \<not> truthy y860))"
      using assms v r t that by (auto simp: etl_eia_pkg_def pbind_Inr_iff split: if_splits)
    from v r skip load show ?thesis by blast
  qed
qed

text \<open>
  Claim C8, as amended. The EPA IPM adapter materializes its static table and returns
  its name whatever tables are requested. The FERC 1 and EIA adapters materialize their
  static tables and return their names exactly when their guard passes. FERC 1: when
  the (validated) list of tables is truthy; otherwise it returns \<^verbatim>\<open>[]\<close> and writes
  nothing. EIA: on the validated configuration, when the guard
  \<^verbatim>\<open>(not eia923_tables or not eia923_years) and (not eia860_tables or not eia860_years)\<close>
  holds the adapter returns \<^verbatim>\<open>[]\<close> and writes nothing, and when it does not hold the
  static tables are written and their names returned.
\<close>

theorem static_tables_when_guard_passes:
  "(etl_epaipm col p s = (Inr tbls, s')
      \<longrightarrow> set static_tables_epaipm \<subseteq> set tbls
          \<and> DictDump ''Static IPM Tables'' static_tables_epaipm \<in> set s')
   \<and> (etl_ferc1_pkg col pc p s = (Inr tbls, s')
       \<and> truthy (get_or p ''ferc1_tables'' (PList (map PStr (pudl_tables_ferc1 pc))))
      \<longrightarrow> set static_tables_ferc \<subseteq> set tbls
          \<and> DictDump ''Static FERC Tables'' static_tables_ferc \<in> set s')
   \<and> (etl_ferc1_pkg col pc p s = (Inr tbls, s')
       \<and> \<not> truthy (get_or p ''ferc1_tables'' (PList (map PStr (pudl_tables_ferc1 pc))))
      \<longrightarrow> tbls = [] \<and> s' = s)
   \<and> (etl_eia_pkg col pc p s = (Inr tbls, s')
      \<longrightarrow> (tbls = [] \<and> s' = s
           \<and> \<not> truthy (get_or p ''eia860_tables'' (PList (map PStr (pudl_tables_eia860 pc)))))
         \<or> (set static_tables_eia \<subseteq> set tbls
           \<and> DictDump ''Static EIA Tables'' static_tables_eia \<in> set s'))
   \<and> (etl_eia_pkg col pc p s = (Inr tbls, s')
      \<longrightarrow> (\<exists>y860 t860 y923 t923.
             validate_input_eia pc p
               = Inr (PDict [(''eia860_years'', y860), (''eia860_tables'', t860),
                             (''eia923_years'', y923), (''eia923_tables'', t923)])
             \<and> ((\<not> truthy t923 \<or> \<not> truthy y923) \<and> (\<not> truthy t860 \<or> \<not> truthy y860)
                  \<longrightarrow> tbls = [] \<and> s' = s)
             \<and> (\<not> ((\<not> truthy t923 \<or> \<not> truthy y923) \<and> (\<not> truthy t860 \<or> \<not> truthy y860))
                  \<longrightarrow> set static_tables_eia \<subseteq> set tbls
                      \<and> DictDump ''Static EIA Tables'' static_tables_eia \<in> set s')))"
  using epaipm_static [of col p s tbls s'] ferc1_static [of col pc p s tbls s']
    ferc1_no_static [of col pc p s tbls s'] eia_static [of col pc p s tbls s']
    eia_guard [of col pc p s tbls s']
  by blast

text \<open>Witness for C8: EPA IPM with no tables requested, FERC 1 with its default
  tables, EIA with the year 2018 of form 860 (its guard passes) and EIA with years and
  no tables (its guard holds), run with the collaborators of the small instance.\<close>

theorem static_tables_when_guard_passes_witness:
  "etl_epaipm example_collaborators [(''epaipm_tables'', PList [])] []
     = (Inr [''transmission_single_epaipm'', ''regions_entity_epaipm''],
        [DictDump ''Static IPM Tables'' [''regions_entity_epaipm''],
         DictDump ''EPA IPM'' [''transmission_single_epaipm'']])
   \<and> etl_ferc1_pkg example_collaborators example_constants [(''ferc1_years'', PList [PInt 2018])] []
     = (Inr [''fuel_ferc1'', ''ferc_accounts'', ''ferc_depreciation_lines''],
        [DictDump ''Static FERC Tables'' [''ferc_accounts'', ''ferc_depreciation_lines''],
         DictDump ''FERC 1'' [''fuel_ferc1'']])
   \<and> set static_tables_ferc \<subseteq> set [''fuel_ferc1'', ''ferc_accounts'', ''ferc_depreciation_lines'']
   \<and> set static_tables_epaipm \<subseteq> set [''transmission_single_epaipm'', ''regions_entity_epaipm'']
   \<and> etl_eia_pkg example_collaborators example_constants [(''eia860_years'', PList [PInt 2018])] []
     = (Inr [''plants_eia860'', ''generation_eia923'', ''plants_entity_eia'',
             ''fuel_type_eia923'', ''prime_movers_eia923'', ''fuel_type_aer_eia923'',
             ''energy_source_eia923'', ''transport_modes_eia923''],
        [DictDump ''Static EIA Tables''
           [''fuel_type_eia923'', ''prime_movers_eia923'', ''fuel_type_aer_eia923'',
            ''energy_source_eia923'', ''transport_modes_eia923''],
         DictDump ''Entities'' [''plants_entity_eia''],
         DictDump ''EIA'' [''plants_eia860'', ''generation_eia923'']])
   \<and> set static_tables_eia
       \<subseteq> set [''plants_eia860'', ''generation_eia923'', ''plants_entity_eia'',
             ''fuel_type_eia923'', ''prime_movers_eia923'', ''fuel_type_aer_eia923'',
             ''energy_source_eia923'', ''transport_modes_eia923'']
   \<and> validate_input_eia example_constants [(''eia860_years'', PList [PInt 2018])]
     = Inr (PDict [(''eia860_years'', PList [PInt 2018]),
                   (''eia860_tables'', PList [PStr ''plants_eia860'', PStr ''generators_eia860'']),
                   (''eia923_years'', PList [PInt 2018]),
                   (''eia923_tables'', PList [PStr ''boiler_fuel_eia923'', PStr ''generation_eia923''])])
   \<and> etl_eia_pkg example_collaborators example_constants
        [(''eia860_years'', PList [PInt 2017]), (''eia860_tables'', PList []),
         (''eia923_years'', PList [PInt 2017]), (''eia923_tables'', PList [])] []
     = (Inr [], [])"
proof -
  have ipm: "etl_epaipm example_collaborators [(''epaipm_tables'', PList [])] []
     = (Inr [''transmission_single_epaipm'', ''regions_entity_epaipm''],
        [DictDump ''Static IPM Tables'' [''regions_entity_epaipm''],
         DictDump ''EPA IPM'' [''transmission_single_epaipm'']])"
    by (simp add: etl_epaipm_def validate_input_epaipm_def example_collaborators_def get_or_def
        static_tables_epaipm_def)
  have ferc: "etl_ferc1_pkg example_collaborators example_constants
       [(''ferc1_years'', PList [PInt 2018])] []
     = (Inr [''fuel_ferc1'', ''ferc_accounts'', ''ferc_depreciation_lines''],
        [DictDump ''Static FERC Tables'' [''ferc_accounts'', ''ferc_depreciation_lines''],
         DictDump ''FERC 1'' [''fuel_ferc1'']])"
    by (simp add: etl_ferc1_pkg_def validate_input_ferc1_def example_collaborators_def
        example_constants_def get_or_def ebind_def check_all_def py_in_seq_def
        static_tables_ferc_def)
  have tables: "truthy (get_or [(''ferc1_years'', PList [PInt 2018])] ''ferc1_tables''
                  (PList (map PStr (pudl_tables_ferc1 example_constants))))"
    by (simp add: get_or_def example_constants_def)
  have eia: "etl_eia_pkg example_collaborators example_constants
       [(''eia860_years'', PList [PInt 2018])] []
     = (Inr [''plants_eia860'', ''generation_eia923'', ''plants_entity_eia'',
             ''fuel_type_eia923'', ''prime_movers_eia923'', ''fuel_type_aer_eia923'',
             ''energy_source_eia923'', ''transport_modes_eia923''],
        [DictDump ''Static EIA Tables''
           [''fuel_type_eia923'', ''prime_movers_eia923'', ''fuel_type_aer_eia923'',
            ''energy_source_eia923'', ''transport_modes_eia923''],
         DictDump ''Entities'' [''plants_entity_eia''],
         DictDump ''EIA'' [''plants_eia860'', ''generation_eia923'']])"
    by code_simp
  have eia_v: "validate_input_eia example_constants [(''eia860_years'', PList [PInt 2018])]
     = Inr (PDict [(''eia860_years'', PList [PInt 2018]),
                   (''eia860_tables'', PList [PStr ''plants_eia860'', PStr ''generators_eia860'']),
                   (''eia923_years'', PList [PInt 2018]),
                   (''eia923_tables'', PList [PStr ''boiler_fuel_eia923'', PStr ''generation_eia923''])])"
    by code_simp
  have eia_skip: "etl_eia_pkg example_collaborators example_constants
        [(''eia860_years'', PList [PInt 2017]), (''eia860_tables'', PList []),
         (''eia923_years'', PList [PInt 2017]), (''eia923_tables'', PList [])] []
     = (Inr [], [])"
    by code_simp
  from static_tables_when_guard_passes
          [of example_collaborators "[(''epaipm_tables'', PList [])]" "[]"
              "[''transmission_single_epaipm'', ''regions_entity_epaipm'']"
              "[DictDump ''Static IPM Tables'' [''regions_entity_epaipm''],
                DictDump ''EPA IPM'' [''transmission_single_epaipm'']]" example_constants]
       ipm
  have a: "set static_tables_epaipm \<subseteq> set [''transmission_single_epaipm'', ''regions_entity_epaipm'']"
    by blast
  from static_tables_when_guard_passes
          [of example_collaborators "[(''ferc1_years'', PList [PInt 2018])]" "[]"
              "[''fuel_ferc1'', ''ferc_accounts'', ''ferc_depreciation_lines'']"
              "[DictDump ''Static FERC Tables'' [''ferc_accounts'', ''ferc_depreciation_lines''],
                DictDump ''FERC 1'' [''fuel_ferc1'']]" example_constants]
       ferc tables
  have b: "set static_tables_ferc \<subseteq> set [''fuel_ferc1'', ''ferc_accounts'', ''ferc_depreciation_lines'']"
    by blast
  have guard: "\<not> ((\<not> truthy (PList [PStr ''boiler_fuel_eia923'', PStr ''generation_eia923''])
                   \<or> \<not> truthy (PList [PInt 2018]))
                \<and> (\<not> truthy (PList [PStr ''plants_eia860'', PStr ''generators_eia860''])
                   \<or> \<not> truthy (PList [PInt 2018])))"
    by simp
  from static_tables_when_guard_passes
          [of example_collaborators "[(''eia860_years'', PList [PInt 2018])]" "[]"
              "[''plants_eia860'', ''generation_eia923'', ''plants_entity_eia'',
                ''fuel_type_eia923'', ''prime_movers_eia923'', ''fuel_type_aer_eia923'',
                ''energy_source_eia923'', ''transport_modes_eia923'']"
              "[DictDump ''Static EIA Tables''
                  [''fuel_type_eia923'', ''prime_movers_eia923'', ''fuel_type_aer_eia923'',
                   ''energy_source_eia923'', ''transport_modes_eia923''],
                DictDump ''Entities'' [''plants_entity_eia''],
                DictDump ''EIA'' [''plants_eia860'', ''generation_eia923'']]" example_constants]
       eia
  obtain y860 t860 y923 t923 where
    g: "validate_input_eia example_constants [(''eia860_years'', PList [PInt 2018])]
               = Inr (PDict [(''eia860_years'', y860), (''eia860_tables'', t860),
                             (''eia923_years'', y923), (''eia923_tables'', t923)])"
       "\<not> ((\<not> truthy t923 \<or> \<not> truthy y923) \<and> (\<not> truthy t860 \<or> \<not> truthy y860))
          \<longrightarrow> set static_tables_eia
               \<subseteq> set [''plants_eia860'', ''generation_eia923'', ''plants_entity_eia'',
                     ''fuel_type_eia923'', ''prime_movers_eia923'', ''fuel_type_aer_eia923'',
                     ''energy_source_eia923'', ''transport_modes_eia923'']"
    by blast
  from g(1) [unfolded eia_v] have "y860 = PList [PInt 2018]"
    "t860 = PList [PStr ''plants_eia860'', PStr ''generators_eia860'']"
    "y923 = PList [PInt 2018]"
    "t923 = PList [PStr ''boiler_fuel_eia923'', PStr ''generation_eia923'']"
    by auto
  with g(2) guard
  have c: "set static_tables_eia
       \<subseteq> set [''plants_eia860'', ''generation_eia923'', ''plants_entity_eia'',
             ''fuel_type_eia923'', ''prime_movers_eia923'', ''fuel_type_aer_eia923'',
             ''energy_source_eia923'', ''transport_modes_eia923'']"
    by blast
  from ipm ferc a b eia c eia_v eia_skip show ?thesis by blast
qed

text \<open>
  Counterexample to C8 as stated: years are requested and no tables, the validators of
  FERC 1 and EIA return a populated configuration (the kind is active), and the adapters
  return \<^verbatim>\<open>[]\<close> without writing any static table.
\<close>

theorem no_static_tables_without_tables:
  "validate_input_ferc1 example_constants
     [(''ferc1_years'', PList [PInt 2018]), (''ferc1_tables'', PList [])]
   = Inr (PDict [(''ferc1_years'', PList [PInt 2018]), (''ferc1_tables'', PList []),
                 (''ferc1_testing'', PBool False), (''debug'', PBool False)])
   \<and> etl_ferc1_pkg example_collaborators example_constants
       [(''ferc1_years'', PList [PInt 2018]), (''ferc1_tables'', PList [])] []
     = (Inr [], [])
   \<and> validate_input_eia example_constants
       [(''eia860_years'', PList [PInt 2018]), (''eia860_tables'', PList []),
        (''eia923_years'', PList [PInt 2018]), (''eia923_tables'', PList [])]
     = Inr (PDict [(''eia860_years'', PList [PInt 2018]), (''eia860_tables'', PList []),
                   (''eia923_years'', PList [PInt 2018]), (''eia923_tables'', PList [])])
   \<and> etl_eia_pkg example_collaborators example_constants
       [(''eia860_years'', PList [PInt 2018]), (''eia860_tables'', PList []),
        (''eia923_years'', PList [PInt 2018]), (''eia923_tables'', PList [])] []
     = (Inr [], [])"
  by (simp add: etl_ferc1_pkg_def etl_eia_pkg_def validate_input_eia_def
      validate_input_ferc1_def example_constants_def get_or_def Let_def
      ebind_def check_all_def py_in_seq_def)

section \<open>Writer sessions of the EPA CEMS adapter\<close>

lemma pbind_apply_Inr: "m s = (Inr x, s1) \<Longrightarrow> pbind m f s = f x s1"
  by (simp add: pbind_def)

lemma pbind_apply_Inl: "m s = (Inl e, s1) \<Longrightarrow> pbind m f s = (Inl e, s1)"
  by (simp add: pbind_def)

lemma fold_session_step_adds [simp]:
  "fold session_step (map (SessionAdd n) dfs) opened = opened"
  by (induction dfs) simp_all

lemma open_sessions_append: "open_sessions (s @ t) = fold session_step t (open_sessions s)"
  by (simp add: open_sessions_def)

lemma open_sessions_session:
  "open_sessions (s @ SessionOpen n # map (SessionAdd n) dfs @ [SessionClose n]) = open_sessions s"
  by (simp add: open_sessions_append)

lemma loader_add_df_trace:
  "loader_add_df col n df s = (r, s') \<Longrightarrow>
     (r = Inr () \<and> s' = s @ [SessionAdd n df]) \<or> ((\<exists>e. r = Inl e) \<and> s' = s)"
  by (auto simp: loader_add_df_def split: option.splits)

lemma add_all_trace:
  "add_all col n dfs s = (r, s') \<Longrightarrow> \<exists>dfs'. s' = s @ map (SessionAdd n) dfs'"
proof (induction dfs arbitrary: s)
  case Nil
  then show ?case by (auto intro: exI [of _ "[]"])
next
  case (Cons df dfs)
  obtain r1 s1 where l: "loader_add_df col n df s = (r1, s1)" by force
  from loader_add_df_trace [OF l] show ?case
  proof
    assume a: "r1 = Inr () \<and> s1 = s @ [SessionAdd n df]"
    with Cons.prems l have "add_all col n dfs (s @ [SessionAdd n df]) = (r, s')"
      by (simp add: pbind_def)
    from Cons.IH [OF this] obtain dfs' where "s' = (s @ [SessionAdd n df]) @ map (SessionAdd n) dfs'"
      by blast
    then have "s' = s @ map (SessionAdd n) (df # dfs')" by simp
    then show ?case by blast
  next
    assume a: "(\<exists>e. r1 = Inl e) \<and> s1 = s"
    with Cons.prems l have "s' = s" by (auto simp: pbind_def)
    then show ?case by (auto intro: exI [of _ "[]"])
  qed
qed

lemma add_all_ok:
  "list_all (\<lambda>df. loader_add col n df = None) dfs \<Longrightarrow>
     add_all col n dfs s = (Inr (), s @ map (SessionAdd n) dfs)"
  by (induction dfs arbitrary: s) (simp_all add: loader_add_df_def)

lemma load_chunks_trace:
  "load_chunks col n cs s = (r, s') \<Longrightarrow> \<exists>dfs'. s' = s @ map (SessionAdd n) dfs'"
proof (induction cs arbitrary: s)
  case Nil
  then show ?case by (auto intro: exI [of _ "[]"])
next
  case (Cons c cs)
  show ?case
  proof (cases c)
    case (Inl e)
    with Cons.prems have "s' = s" by simp
    then show ?thesis by (auto intro: exI [of _ "[]"])
  next
    case (Inr d)
    obtain r1 s1 where a: "add_all col n (map snd d) s = (r1, s1)" by force
    from add_all_trace [OF a] obtain dfs1 where s1: "s1 = s @ map (SessionAdd n) dfs1" by blast
    show ?thesis
    proof (cases r1)
      case (Inl e)
      with Cons.prems Inr a have "s' = s1" by (simp add: pbind_def)
      with s1 show ?thesis by blast
    next
      case r1: (Inr u)
      with Cons.prems Inr a have "load_chunks col n cs s1 = (r, s')" by (simp add: pbind_def)
      from Cons.IH [OF this] obtain dfs2 where "s' = s1 @ map (SessionAdd n) dfs2" by blast
      with s1 have "s' = s @ map (SessionAdd n) (dfs1 @ dfs2)" by simp
      then show ?thesis by blast
    qed
  qed
qed

lemma etl_epacems_part_trace:
  assumes "etl_epacems_part col part ys sts s = (r, s')"
  shows "\<exists>dfs. s' = s @ SessionOpen (epacems_table_name part)
                      # map (SessionAdd (epacems_table_name part)) dfs
                      @ [SessionClose (epacems_table_name part)]"
proof -
  let ?n = "epacems_table_name part"
  obtain r1 s1 where l: "load_chunks col ?n (epacems_chunks col (PList [part]) sts)
                            (s @ [SessionOpen ?n]) = (r1, s1)" by force
  from load_chunks_trace [OF l] obtain dfs where s1: "s1 = (s @ [SessionOpen ?n]) @ map (SessionAdd ?n) dfs"
    by blast
  from assms l have "s' = s1 @ [SessionClose ?n]"
    by (cases r1) (auto simp: etl_epacems_part_def Let_def with_BulkCopyPkg_def pbind_def)
  with s1 have "s' = s @ SessionOpen ?n # map (SessionAdd ?n) dfs @ [SessionClose ?n]" by simp
  then show ?thesis by blast
qed

lemma etl_epacems_part_released:
  assumes "etl_epacems_part col part ys sts s = (r, s')"
  shows "open_sessions s' = open_sessions s"
  using etl_epacems_part_trace [OF assms] open_sessions_session by metis

lemma epacems_parts_released:
  "epacems_parts col parts ys sts s = (r, s') \<Longrightarrow> open_sessions s' = open_sessions s"
proof (induction parts arbitrary: ys sts s)
  case Nil
  then show ?case by simp
next
  case (Cons part parts)
  show ?case
  proof (cases "py_in part ys")
    case (Inl e)
    with Cons.prems show ?thesis by simp
  next
    case iny: (Inr in_years)
    show ?thesis
    proof (cases "py_in part sts")
      case (Inl e)
      with Cons.prems iny show ?thesis by simp
    next
      case ins: (Inr in_states)
      let ?ys = "if in_years then PList [part] else ys"
      let ?sts = "if in_states then PList [part] else sts"
      obtain r1 s1 where p: "etl_epacems_part col part ?ys ?sts s = (r1, s1)" by force
      note rel = etl_epacems_part_released [OF p]
      show ?thesis
      proof (cases r1)
        case (Inl e)
        with Cons.prems iny ins p have "s' = s1" by (simp add: pbind_apply_Inl)
        with rel show ?thesis by simp
      next
        case (Inr n)
        with Cons.prems iny ins p have "epacems_parts col parts ?ys ?sts s1 = (r, s')"
          by (simp add: pbind_apply_Inr)
        from Cons.IH [OF this] rel show ?thesis by simp
      qed
    qed
  qed
qed

lemma etl_epacems_pkg_released:
  assumes "etl_epacems_pkg col pc p s = (r, s')"
  shows "open_sessions s' = open_sessions s"
proof -
  have "s' = s \<or> (\<exists>parts ys sts r1. epacems_parts col parts ys sts s = (r1, s'))"
    using assms unfolding etl_epacems_pkg_def
    by (auto simp: pbind_plift_cases pbind_def plift_def split: sum.splits if_splits prod.splits)
  then show ?thesis using epacems_parts_released by blast
qed


lemma etl_epacems_part_second_of_three:
  assumes "epacems_chunks col (PList [part]) sts = [Inr d1, Inl e, Inr d3]"
    and "list_all (\<lambda>df. loader_add col (epacems_table_name part) df = None) (map snd d1)"
  shows "etl_epacems_part col part ys sts s
         = (Inl e, s @ SessionOpen (epacems_table_name part)
                      # map (SessionAdd (epacems_table_name part)) (map snd d1)
                      @ [SessionClose (epacems_table_name part)])"
  using assms
  by (simp add: etl_epacems_part_def Let_def with_BulkCopyPkg_def pbind_def add_all_ok)

lemma table_name_2017: "epacems_table_name (PInt 2017) = ''hourly_emissions_epacems_2017''"
  by code_simp

text \<open>
  Claim C1. Whatever \<^verbatim>\<open>_etl_epacems_part\<close> returns or raises for a partition key, the
  trace it leaves is: the session for the table of that key is opened, data frames are
  added to it, and the session is closed; so no session it opened is open when it
  hands back control, on the success path and on the failure path, and the same holds
  for the whole adapter \<^verbatim>\<open>_etl_epacems_pkg\<close>. In particular, when the transformation
  yields one item, raises on the second of three, and the adds of the first item
  succeed, the adapter raises that exception with the session of the partition already
  closed.
\<close>

theorem writer_session_released:
  "(etl_epacems_part col part epacems_years epacems_states s = (r, s')
      \<longrightarrow> (\<exists>dfs. s' = s @ SessionOpen (epacems_table_name part)
                           # map (SessionAdd (epacems_table_name part)) dfs
                           @ [SessionClose (epacems_table_name part)])
          \<and> open_sessions s' = open_sessions s)
   \<and> (etl_epacems_pkg col pc etl_params s = (r', s'') \<longrightarrow> open_sessions s'' = open_sessions s)
   \<and> (epacems_chunks col (PList [part]) epacems_states = [Inr d1, Inl e, Inr d3]
       \<and> list_all (\<lambda>df. loader_add col (epacems_table_name part) df = None) (map snd d1)
      \<longrightarrow> etl_epacems_part col part epacems_years epacems_states s
          = (Inl e, s @ SessionOpen (epacems_table_name part)
                       # map (SessionAdd (epacems_table_name part)) (map snd d1)
                       @ [SessionClose (epacems_table_name part)]))"
  using etl_epacems_part_trace [of col part epacems_years epacems_states s r s']
    etl_epacems_part_released [of col part epacems_years epacems_states s r s']
    etl_epacems_pkg_released [of col pc etl_params s r' s'']
    etl_epacems_part_second_of_three [of col part epacems_states d1 e d3 epacems_years s]
  by blast

text \<open>Witness for C1: the year 2017 with collaborators whose transformation raises on
  the second of three items.\<close>

theorem writer_session_released_witness:
  "etl_epacems_part failing_collaborators (PInt 2017) (PList [PInt 2017]) (PList [PStr ''ID'']) []
     = (Inl (CollaboratorError ''transform''),
        [SessionOpen ''hourly_emissions_epacems_2017'',
         SessionAdd ''hourly_emissions_epacems_2017'' 8,
         SessionClose ''hourly_emissions_epacems_2017''])
   \<and> open_sessions [SessionOpen ''hourly_emissions_epacems_2017'',
         SessionAdd ''hourly_emissions_epacems_2017'' 8,
         SessionClose ''hourly_emissions_epacems_2017''] = []
   \<and> epacems_chunks failing_collaborators (PList [PInt 2017]) (PList [PStr ''ID''])
     = [Inr [(''a'', 8)], Inl (CollaboratorError ''transform''), Inr [(''c'', 9)]]
   \<and> etl_epacems_pkg failing_collaborators example_constants
        [(''epacems_years'', PList [PInt 2017, PInt 2018]),
         (''epacems_states'', PList [PStr ''ID'']),
         (''partition'', PDict [(''hourly_emissions_epacems'', PStr ''epacems_years'')])] []
     = (Inl (CollaboratorError ''transform''),
        [SessionOpen ''hourly_emissions_epacems_2017'',
         SessionAdd ''hourly_emissions_epacems_2017'' 8,
         SessionClose ''hourly_emissions_epacems_2017''])"
proof -
  have chunks: "epacems_chunks failing_collaborators (PList [PInt 2017]) (PList [PStr ''ID''])
     = [Inr [(''a'', 8)], Inl (CollaboratorError ''transform''), Inr [(''c'', 9)]]"
    by (simp add: failing_collaborators_def example_collaborators_def)
  have adds: "list_all (\<lambda>df. loader_add failing_collaborators (epacems_table_name (PInt 2017)) df = None)
                (map snd [(''a'', 8)])"
    by (simp add: failing_collaborators_def example_collaborators_def)
  have pkg: "etl_epacems_pkg failing_collaborators example_constants
        [(''epacems_years'', PList [PInt 2017, PInt 2018]),
         (''epacems_states'', PList [PStr ''ID'']),
         (''partition'', PDict [(''hourly_emissions_epacems'', PStr ''epacems_years'')])] []
     = (Inl (CollaboratorError ''transform''),
        [SessionOpen ''hourly_emissions_epacems_2017'',
         SessionAdd ''hourly_emissions_epacems_2017'' 8,
         SessionClose ''hourly_emissions_epacems_2017''])"
    by code_simp
  note w = writer_session_released
            [of failing_collaborators "PInt 2017" "PList [PInt 2017]" "PList [PStr ''ID'']" "[]"
                "Inl (CollaboratorError ''transform'')"
                "[SessionOpen ''hourly_emissions_epacems_2017'',
                  SessionAdd ''hourly_emissions_epacems_2017'' 8,
                  SessionClose ''hourly_emissions_epacems_2017'']"
                example_constants
                "[(''epacems_years'', PList [PInt 2017, PInt 2018]),
                  (''epacems_states'', PList [PStr ''ID'']),
                  (''partition'', PDict [(''hourly_emissions_epacems'', PStr ''epacems_years'')])]"
                "Inl (CollaboratorError ''transform'')"
                "[SessionOpen ''hourly_emissions_epacems_2017'',
                  SessionAdd ''hourly_emissions_epacems_2017'' 8,
                  SessionClose ''hourly_emissions_epacems_2017'']"
                "[(''a'', 8)]" "CollaboratorError ''transform''" "[(''c'', 9)]"]
  from w chunks adds have run:
    "etl_epacems_part failing_collaborators (PInt 2017) (PList [PInt 2017]) (PList [PStr ''ID'']) []
     = (Inl (CollaboratorError ''transform''),
        [SessionOpen ''hourly_emissions_epacems_2017'',
         SessionAdd ''hourly_emissions_epacems_2017'' 8,
         SessionClose ''hourly_emissions_epacems_2017''])"
    by (simp add: table_name_2017)
  from w pkg have "open_sessions [SessionOpen ''hourly_emissions_epacems_2017'',
         SessionAdd ''hourly_emissions_epacems_2017'' 8,
         SessionClose ''hourly_emissions_epacems_2017''] = open_sessions []"
    by blast
  then have "open_sessions [SessionOpen ''hourly_emissions_epacems_2017'',
         SessionAdd ''hourly_emissions_epacems_2017'' 8,
         SessionClose ''hourly_emissions_epacems_2017''] = []"
    by (simp add: open_sessions_def)
  with run chunks pkg show ?thesis by blast
qed

section \<open>The table name the EPA CEMS adapter reports\<close>

lemma session_names_adds [simp]: "session_names (map (SessionAdd n) dfs @ evs) = session_names evs"
  by (induction dfs) simp_all

lemma add_names_adds [simp]:
  "add_names (map (SessionAdd n) dfs @ evs) = replicate (length dfs) n @ add_names evs"
  by (induction dfs) simp_all

lemma session_names_append: "session_names (a @ b) = session_names a @ session_names b"
  by (induction a rule: session_names.induct) simp_all

lemma add_names_append: "add_names (a @ b) = add_names a @ add_names b"
  by (induction a rule: add_names.induct) simp_all

lemma session_names_adds_only [simp]: "session_names (map (SessionAdd n) dfs) = []"
  by (induction dfs) simp_all

lemma add_names_adds_only [simp]: "add_names (map (SessionAdd n) dfs) = replicate (length dfs) n"
  by (induction dfs) simp_all

lemma session_names_block:
  "session_names (SessionOpen n # map (SessionAdd n) dfs @ [SessionClose n]) = [n]"
  by simp

lemma add_names_block:
  "set (add_names (SessionOpen n # map (SessionAdd n) dfs @ [SessionClose n])) \<subseteq> {n}"
  by auto

lemma etl_epacems_part_result:
  "etl_epacems_part col part ys sts s = (Inr n, s') \<Longrightarrow> n = epacems_table_name part"
  by (auto simp: etl_epacems_part_def Let_def pbind_Inr_iff)

lemma epacems_parts_names:
  "epacems_parts col parts ys sts s = (Inr u, s') \<Longrightarrow>
     \<exists>new. s' = s @ new \<and> session_names new = map epacems_table_name parts
           \<and> set (add_names new) \<subseteq> set (map epacems_table_name parts)"
proof (induction parts arbitrary: ys sts s)
  case Nil
  then show ?case by simp
next
  case (Cons part parts)
  from Cons.prems obtain in_years in_states n s1 where
    p: "etl_epacems_part col part (if in_years then PList [part] else ys)
          (if in_states then PList [part] else sts) s = (Inr n, s1)"
    and rest: "epacems_parts col parts (if in_years then PList [part] else ys)
          (if in_states then PList [part] else sts) s1 = (Inr u, s')"
    by (auto simp: pbind_Inr_iff)
  from etl_epacems_part_trace [OF p] obtain dfs where
    s1: "s1 = s @ SessionOpen (epacems_table_name part)
                  # map (SessionAdd (epacems_table_name part)) dfs
                  @ [SessionClose (epacems_table_name part)]" by blast
  from Cons.IH [OF rest] obtain new where
    new: "s' = s1 @ new" "session_names new = map epacems_table_name parts"
      "set (add_names new) \<subseteq> set (map epacems_table_name parts)" by blast
  let ?blk = "SessionOpen (epacems_table_name part)
                  # map (SessionAdd (epacems_table_name part)) dfs
                  @ [SessionClose (epacems_table_name part)]"
  have "s' = s @ (?blk @ new)" using s1 new(1) by simp
  moreover have "session_names (?blk @ new) = map epacems_table_name (part # parts)"
    using new(2) by (simp add: session_names_append)
  moreover have "set (add_names (?blk @ new)) \<subseteq> set (map epacems_table_name (part # parts))"
    using new(3) by (auto simp: add_names_append)
  ultimately show ?case by blast
qed

lemma epacems_validated_shape:
  assumes "validate_input_epacems pc p = Inr r"
  shows "r = PNone \<or>
         (\<exists>ys sts pt. truthy ys \<and> truthy sts \<and> truthy pt \<and>
            r = PDict [(''epacems_years'', ys), (''epacems_states'', sts), (''partition'', pt)])"
  using assms
  unfolding validate_input_epacems_def Let_def ebind_Inr_iff
  by (auto split: if_splits)

lemma py_iter_truthy: "truthy v \<Longrightarrow> py_iter v = Inr xs \<Longrightarrow> xs \<noteq> []"
  by (cases v) auto

lemma partition_keys_nonempty:
  assumes "truthy ys" and "truthy sts" and "truthy pt"
    and "partition_keys pc (PDict [(''epacems_years'', ys), (''epacems_states'', sts),
                                   (''partition'', pt)]) pt = Inr parts"
  shows "parts \<noteq> []"
proof -
  from assms(4) obtain key keys where
    k: "py_getitem_key (PDict [(''epacems_years'', ys), (''epacems_states'', sts),
                               (''partition'', pt)]) key = Inr keys"
    and it: "py_iter keys = Inr parts"
    by (auto simp: partition_keys_def ebind_Inr_iff)
  from k assms(1-3) have "truthy keys"
    by (cases key) (auto split: if_splits)
  with it show ?thesis using py_iter_truthy by blast
qed

lemma aggregate_name_not_partition_name:
  "''hourly_emissions_epacems'' \<noteq> epacems_table_name part"
  by (simp add: epacems_table_name_def)

lemma epacems_parts_blocks:
  "epacems_parts col parts ys sts s = (Inr u, s') \<Longrightarrow>
     \<exists>dfss. length dfss = length parts
       \<and> s' = s @ concat (map2 (\<lambda>part dfs.
                 SessionOpen (epacems_table_name part)
                 # map (SessionAdd (epacems_table_name part)) dfs
                 @ [SessionClose (epacems_table_name part)]) parts dfss)"
proof (induction parts arbitrary: ys sts s)
  case Nil
  then show ?case by simp
next
  case (Cons part parts)
  from Cons.prems obtain in_years in_states n s1 where
    p: "etl_epacems_part col part (if in_years then PList [part] else ys)
          (if in_states then PList [part] else sts) s = (Inr n, s1)"
    and rest: "epacems_parts col parts (if in_years then PList [part] else ys)
          (if in_states then PList [part] else sts) s1 = (Inr u, s')"
    by (auto simp: pbind_Inr_iff)
  from etl_epacems_part_trace [OF p] obtain dfs where
    s1: "s1 = s @ SessionOpen (epacems_table_name part)
                  # map (SessionAdd (epacems_table_name part)) dfs
                  @ [SessionClose (epacems_table_name part)]" by blast
  from Cons.IH [OF rest] obtain dfss where
    dfss: "length dfss = length parts"
      "s' = s1 @ concat (map2 (\<lambda>part dfs.
                 SessionOpen (epacems_table_name part)
                 # map (SessionAdd (epacems_table_name part)) dfs
                 @ [SessionClose (epacems_table_name part)]) parts dfss)" by blast
  have "length (dfs # dfss) = length (part # parts)" using dfss(1) by simp
  moreover have "s' = s @ concat (map2 (\<lambda>part dfs.
                 SessionOpen (epacems_table_name part)
                 # map (SessionAdd (epacems_table_name part)) dfs
                 @ [SessionClose (epacems_table_name part)]) (part # parts) (dfs # dfss))"
    using s1 dfss(2) by simp
  ultimately show ?case by blast
qed

lemma py_str_PStr: "py_str (PStr st) = st"
  by (simp add: py_str_def)

lemma epacems_pkg_run:
  assumes run: "etl_epacems_pkg col pc etl_params s = (Inr tbls, s')"
  shows "tbls = [''hourly_emissions_epacems'']
     \<and> (\<exists>epacems_dict epacems_partition parts dfss new.
           validate_input_epacems pc etl_params = Inr epacems_dict
           \<and> py_getitem epacems_dict ''partition'' = Inr epacems_partition
           \<and> partition_keys pc epacems_dict epacems_partition = Inr parts
           \<and> parts \<noteq> []
           \<and> length dfss = length parts
           \<and> new = concat (map2 (\<lambda>part dfs.
                 SessionOpen (epacems_table_name part)
                 # map (SessionAdd (epacems_table_name part)) dfs
                 @ [SessionClose (epacems_table_name part)]) parts dfss)
           \<and> s' = s @ new
           \<and> session_names new = map epacems_table_name parts
           \<and> set (add_names new) \<subseteq> set (session_names new)
           \<and> ''hourly_emissions_epacems'' \<notin> set (session_names new))"
proof -
  from run obtain r where v: "validate_input_epacems pc etl_params = Inr r"
    by (auto simp: etl_epacems_pkg_def pbind_Inr_iff)
  from epacems_validated_shape [OF v] run v obtain ys sts pt where
    t: "truthy ys" "truthy sts" "truthy pt"
    and r: "r = PDict [(''epacems_years'', ys), (''epacems_states'', sts), (''partition'', pt)]"
    by (auto simp: etl_epacems_pkg_def)
  from run v r t obtain parts u where
    pk: "partition_keys pc r pt = Inr parts"
    and loop: "epacems_parts col parts ys sts s = (Inr u, s')"
    and tbls: "tbls = [''hourly_emissions_epacems'']"
    by (auto simp: etl_epacems_pkg_def pbind_Inr_iff)
  from partition_keys_nonempty [OF t] pk r have ne: "parts \<noteq> []" by simp
  from epacems_parts_blocks [OF loop] obtain dfss where
    dfss: "length dfss = length parts"
      "s' = s @ concat (map2 (\<lambda>part dfs.
                 SessionOpen (epacems_table_name part)
                 # map (SessionAdd (epacems_table_name part)) dfs
                 @ [SessionClose (epacems_table_name part)]) parts dfss)" by blast
  from epacems_parts_names [OF loop] obtain new where
    new: "s' = s @ new" "session_names new = map epacems_table_name parts"
      "set (add_names new) \<subseteq> set (map epacems_table_name parts)" by blast
  from new(1) dfss(2) have eq: "new = concat (map2 (\<lambda>part dfs.
                 SessionOpen (epacems_table_name part)
                 # map (SessionAdd (epacems_table_name part)) dfs
                 @ [SessionClose (epacems_table_name part)]) parts dfss)" by simp
  have notin: "''hourly_emissions_epacems'' \<notin> set (session_names new)"
    using new(2) aggregate_name_not_partition_name by auto
  have sub: "set (add_names new) \<subseteq> set (session_names new)"
    using new(2,3) by simp
  have gp: "py_getitem r ''partition'' = Inr pt" by (simp add: r)
  from tbls v gp pk ne dfss(1) eq new(1,2) sub notin show ?thesis by blast
qed

text \<open>
  Claim C7. Every run of \<^verbatim>\<open>_etl_epacems_pkg\<close> that returns has processed at least one
  partition key and reports exactly \<^verbatim>\<open>['hourly_emissions_epacems']\<close>. What it wrote is, for
  each partition key in turn (a year or a state), one session: the session named
  \<^verbatim>\<open>hourly_emissions_epacems_\<close> followed by \<^verbatim>\<open>str(part)\<close> is opened, data frames are added
  under that very name, and it is closed. The reported name is none of the names
  written. The \<^verbatim>\<open>str\<close> of a string key, a state, is the key itself.
\<close>

theorem epacems_reports_aggregate_name:
  "(etl_epacems_pkg col pc etl_params s = (Inr tbls, s') \<longrightarrow>
     tbls = [''hourly_emissions_epacems'']
     \<and> (\<exists>epacems_dict epacems_partition parts dfss new.
           validate_input_epacems pc etl_params = Inr epacems_dict
           \<and> py_getitem epacems_dict ''partition'' = Inr epacems_partition
           \<and> partition_keys pc epacems_dict epacems_partition = Inr parts
           \<and> parts \<noteq> []
           \<and> length dfss = length parts
           \<and> new = concat (map2 (\<lambda>part dfs.
                 SessionOpen (''hourly_emissions_epacems_'' @ py_str part)
                 # map (SessionAdd (''hourly_emissions_epacems_'' @ py_str part)) dfs
                 @ [SessionClose (''hourly_emissions_epacems_'' @ py_str part)]) parts dfss)
           \<and> s' = s @ new
           \<and> session_names new = map (\<lambda>part. ''hourly_emissions_epacems_'' @ py_str part) parts
           \<and> set (add_names new) \<subseteq> set (session_names new)
           \<and> ''hourly_emissions_epacems'' \<notin> set (session_names new)))
   \<and> py_str (PStr st) = st"
  using epacems_pkg_run [of col pc etl_params s tbls s', unfolded epacems_table_name_def [abs_def]]
    py_str_PStr [of st]
  by blast

text \<open>Witness for C7: the years 2017 and 2018 as partition keys, and the states
  \<^verbatim>\<open>ID\<close> and \<^verbatim>\<open>CO\<close> as partition keys, run with the collaborators of the small instance.\<close>

theorem epacems_reports_aggregate_name_witness:
  "etl_epacems_pkg example_collaborators example_constants
     [(''epacems_years'', PList [PInt 2017, PInt 2018]),
      (''epacems_states'', PList [PStr ''ID'']),
      (''partition'', PDict [(''hourly_emissions_epacems'', PStr ''epacems_years'')])] []
   = (Inr [''hourly_emissions_epacems''],
      [SessionOpen ''hourly_emissions_epacems_2017'',
       SessionAdd ''hourly_emissions_epacems_2017'' 8,
       SessionAdd ''hourly_emissions_epacems_2017'' 9,
       SessionClose ''hourly_emissions_epacems_2017'',
       SessionOpen ''hourly_emissions_epacems_2018'',
       SessionAdd ''hourly_emissions_epacems_2018'' 8,
       SessionAdd ''hourly_emissions_epacems_2018'' 9,
       SessionClose ''hourly_emissions_epacems_2018''])
   \<and> etl_epacems_pkg example_collaborators example_constants
     [(''epacems_years'', PList [PInt 2017]),
      (''epacems_states'', PList [PStr ''ID'', PStr ''CO'']),
      (''partition'', PDict [(''hourly_emissions_epacems'', PStr ''epacems_states'')])] []
   = (Inr [''hourly_emissions_epacems''],
      [SessionOpen ''hourly_emissions_epacems_ID'',
       SessionAdd ''hourly_emissions_epacems_ID'' 8,
       SessionAdd ''hourly_emissions_epacems_ID'' 9,
       SessionClose ''hourly_emissions_epacems_ID'',
       SessionOpen ''hourly_emissions_epacems_CO'',
       SessionAdd ''hourly_emissions_epacems_CO'' 8,
       SessionAdd ''hourly_emissions_epacems_CO'' 9,
       SessionClose ''hourly_emissions_epacems_CO''])
   \<and> ''hourly_emissions_epacems'' \<notin> set (session_names
      [SessionOpen ''hourly_emissions_epacems_2017'',
       SessionAdd ''hourly_emissions_epacems_2017'' 8,
       SessionAdd ''hourly_emissions_epacems_2017'' 9,
       SessionClose ''hourly_emissions_epacems_2017'',
       SessionOpen ''hourly_emissions_epacems_2018'',
       SessionAdd ''hourly_emissions_epacems_2018'' 8,
       SessionAdd ''hourly_emissions_epacems_2018'' 9,
       SessionClose ''hourly_emissions_epacems_2018''])
   \<and> ''hourly_emissions_epacems'' \<notin> set (session_names
      [SessionOpen ''hourly_emissions_epacems_ID'',
       SessionAdd ''hourly_emissions_epacems_ID'' 8,
       SessionAdd ''hourly_emissions_epacems_ID'' 9,
       SessionClose ''hourly_emissions_epacems_ID'',
       SessionOpen ''hourly_emissions_epacems_CO'',
       SessionAdd ''hourly_emissions_epacems_CO'' 8,
       SessionAdd ''hourly_emissions_epacems_CO'' 9,
       SessionClose ''hourly_emissions_epacems_CO''])
   \<and> py_str (PStr ''ID'') = ''ID''"
proof -
  have years: "etl_epacems_pkg example_collaborators example_constants
     [(''epacems_years'', PList [PInt 2017, PInt 2018]),
      (''epacems_states'', PList [PStr ''ID'']),
      (''partition'', PDict [(''hourly_emissions_epacems'', PStr ''epacems_years'')])] []
   = (Inr [''hourly_emissions_epacems''],
      [SessionOpen ''hourly_emissions_epacems_2017'',
       SessionAdd ''hourly_emissions_epacems_2017'' 8,
       SessionAdd ''hourly_emissions_epacems_2017'' 9,
       SessionClose ''hourly_emissions_epacems_2017'',
       SessionOpen ''hourly_emissions_epacems_2018'',
       SessionAdd ''hourly_emissions_epacems_2018'' 8,
       SessionAdd ''hourly_emissions_epacems_2018'' 9,
       SessionClose ''hourly_emissions_epacems_2018''])"
    by code_simp
  have states: "etl_epacems_pkg example_collaborators example_constants
     [(''epacems_years'', PList [PInt 2017]),
      (''epacems_states'', PList [PStr ''ID'', PStr ''CO'']),
      (''partition'', PDict [(''hourly_emissions_epacems'', PStr ''epacems_states'')])] []
   = (Inr [''hourly_emissions_epacems''],
      [SessionOpen ''hourly_emissions_epacems_ID'',
       SessionAdd ''hourly_emissions_epacems_ID'' 8,
       SessionAdd ''hourly_emissions_epacems_ID'' 9,
       SessionClose ''hourly_emissions_epacems_ID'',
       SessionOpen ''hourly_emissions_epacems_CO'',
       SessionAdd ''hourly_emissions_epacems_CO'' 8,
       SessionAdd ''hourly_emissions_epacems_CO'' 9,
       SessionClose ''hourly_emissions_epacems_CO''])"
    by code_simp
  from epacems_reports_aggregate_name
         [of example_collaborators example_constants
             "[(''epacems_years'', PList [PInt 2017, PInt 2018]),
               (''epacems_states'', PList [PStr ''ID'']),
               (''partition'', PDict [(''hourly_emissions_epacems'', PStr ''epacems_years'')])]"
             "[]" "[''hourly_emissions_epacems'']"
             "[SessionOpen ''hourly_emissions_epacems_2017'',
               SessionAdd ''hourly_emissions_epacems_2017'' 8,
               SessionAdd ''hourly_emissions_epacems_2017'' 9,
               SessionClose ''hourly_emissions_epacems_2017'',
               SessionOpen ''hourly_emissions_epacems_2018'',
               SessionAdd ''hourly_emissions_epacems_2018'' 8,
               SessionAdd ''hourly_emissions_epacems_2018'' 9,
               SessionClose ''hourly_emissions_epacems_2018'']" "''ID''"]
       years
  have a: "''hourly_emissions_epacems'' \<notin> set (session_names
      [SessionOpen ''hourly_emissions_epacems_2017'',
       SessionAdd ''hourly_emissions_epacems_2017'' 8,
       SessionAdd ''hourly_emissions_epacems_2017'' 9,
       SessionClose ''hourly_emissions_epacems_2017'',
       SessionOpen ''hourly_emissions_epacems_2018'',
       SessionAdd ''hourly_emissions_epacems_2018'' 8,
       SessionAdd ''hourly_emissions_epacems_2018'' 9,
       SessionClose ''hourly_emissions_epacems_2018''])"
    and c: "py_str (PStr ''ID'') = ''ID''"
    by auto
  from epacems_reports_aggregate_name
         [of example_collaborators example_constants
             "[(''epacems_years'', PList [PInt 2017]),
               (''epacems_states'', PList [PStr ''ID'', PStr ''CO'']),
               (''partition'', PDict [(''hourly_emissions_epacems'', PStr ''epacems_states'')])]"
             "[]" "[''hourly_emissions_epacems'']"
             "[SessionOpen ''hourly_emissions_epacems_ID'',
               SessionAdd ''hourly_emissions_epacems_ID'' 8,
               SessionAdd ''hourly_emissions_epacems_ID'' 9,
               SessionClose ''hourly_emissions_epacems_ID'',
               SessionOpen ''hourly_emissions_epacems_CO'',
               SessionAdd ''hourly_emissions_epacems_CO'' 8,
               SessionAdd ''hourly_emissions_epacems_CO'' 9,
               SessionClose ''hourly_emissions_epacems_CO'']" "''ID''"]
       states
  have b: "''hourly_emissions_epacems'' \<notin> set (session_names
      [SessionOpen ''hourly_emissions_epacems_ID'',
       SessionAdd ''hourly_emissions_epacems_ID'' 8,
       SessionAdd ''hourly_emissions_epacems_ID'' 9,
       SessionClose ''hourly_emissions_epacems_ID'',
       SessionOpen ''hourly_emissions_epacems_CO'',
       SessionAdd ''hourly_emissions_epacems_CO'' 8,
       SessionAdd ''hourly_emissions_epacems_CO'' 9,
       SessionClose ''hourly_emissions_epacems_CO''])"
    by auto
  from years states a b c show ?thesis by blast
qed

section \<open>The order of the package coordinator\<close>

lemma pbind_assoc: "pbind (pbind m f) g = pbind m (\<lambda>x. pbind (f x) g)"
  by (auto simp: pbind_def fun_eq_iff split: prod.splits sum.splits)

text \<open>
  Claim C9, as amended. The coordinator processes the dataset entries of a package in
  the order in which the configuration lists them (the chain of comparisons with the
  five kinds only selects the adapter of an entry): running a list of entries is running
  its first part and then, on the resulting trace and table list, the rest.
\<close>

theorem datasets_in_insertion_order:
  "etl_datasets col pc pudl_settings (datasets1 @ datasets2) tables
     = pbind (etl_datasets col pc pudl_settings datasets1 tables)
         (etl_datasets col pc pudl_settings datasets2)"
proof (induction datasets1 arbitrary: tables)
  case Nil
  show ?case by (simp add: fun_eq_iff pbind_def)
next
  case (Cons dataset_dict datasets1)
  have ih: "etl_datasets col pc pudl_settings (datasets1 @ datasets2)
              = (\<lambda>t. pbind (etl_datasets col pc pudl_settings datasets1 t)
                        (etl_datasets col pc pudl_settings datasets2))"
    by (rule ext) (rule Cons.IH)
  show ?case by (simp add: pbind_assoc ih)
qed

text \<open>Witness for C9: an EPA IPM entry followed by a FERC 1 entry.\<close>

theorem datasets_in_insertion_order_witness:
  "pbind (etl_datasets example_collaborators example_constants [(''data_dir'', PStr ''in'')]
            [PDict [(''epaipm'', PDict [])]] [])
         (etl_datasets example_collaborators example_constants [(''data_dir'', PStr ''in'')]
            [PDict [(''ferc1'', PDict [(''ferc1_years'', PList [PInt 2018])])]]) []
   = (Inr [PStr ''transmission_single_epaipm'', PStr ''regions_entity_epaipm'',
           PStr ''fuel_ferc1'', PStr ''ferc_accounts'', PStr ''ferc_depreciation_lines''],
      [DictDump ''Static IPM Tables'' [''regions_entity_epaipm''],
       DictDump ''EPA IPM'' [''transmission_single_epaipm''],
       DictDump ''Static FERC Tables'' [''ferc_accounts'', ''ferc_depreciation_lines''],
       DictDump ''FERC 1'' [''fuel_ferc1'']])"
proof -
  have run: "etl_datasets example_collaborators example_constants [(''data_dir'', PStr ''in'')]
       ([PDict [(''epaipm'', PDict [])]]
        @ [PDict [(''ferc1'', PDict [(''ferc1_years'', PList [PInt 2018])])]]) [] []
   = (Inr [PStr ''transmission_single_epaipm'', PStr ''regions_entity_epaipm'',
           PStr ''fuel_ferc1'', PStr ''ferc_accounts'', PStr ''ferc_depreciation_lines''],
      [DictDump ''Static IPM Tables'' [''regions_entity_epaipm''],
       DictDump ''EPA IPM'' [''transmission_single_epaipm''],
       DictDump ''Static FERC Tables'' [''ferc_accounts'', ''ferc_depreciation_lines''],
       DictDump ''FERC 1'' [''fuel_ferc1'']])"
    by code_simp
  show ?thesis
    using run
    unfolding datasets_in_insertion_order
                [of example_collaborators example_constants "[(''data_dir'', PStr ''in'')]"
                    "[PDict [(''epaipm'', PDict [])]]"
                    "[PDict [(''ferc1'', PDict [(''ferc1_years'', PList [PInt 2018])])]]" "[]"]
    .
qed

text \<open>
  Counterexample to C9 as stated: two package configurations with the same two dataset
  entries in different orders. The coordinator runs the adapters, and writes and
  reports the tables, in the order of each configuration, and not in one order fixed by
  the kinds (in which FERC 1 comes before EPA IPM).
\<close>

theorem processed_in_config_order:
  "etl_pkg example_collaborators example_constants
     [(''name'', PStr ''pkg''),
      (''datasets'', PList [PDict [(''epaipm'', PDict [])],
                            PDict [(''ferc1'', PDict [(''ferc1_years'', PList [PInt 2018])])]])]
     [(''data_dir'', PStr ''in'')] []
   = (Inr [PStr ''transmission_single_epaipm'', PStr ''regions_entity_epaipm'',
           PStr ''fuel_ferc1'', PStr ''ferc_accounts'', PStr ''ferc_depreciation_lines''],
      [PrepDirectories ''pkg'',
       DictDump ''Static IPM Tables'' [''regions_entity_epaipm''],
       DictDump ''EPA IPM'' [''transmission_single_epaipm''],
       DictDump ''Static FERC Tables'' [''ferc_accounts'', ''ferc_depreciation_lines''],
       DictDump ''FERC 1'' [''fuel_ferc1'']])
   \<and> etl_pkg example_collaborators example_constants
     [(''name'', PStr ''pkg''),
      (''datasets'', PList [PDict [(''ferc1'', PDict [(''ferc1_years'', PList [PInt 2018])])],
                            PDict [(''epaipm'', PDict [])]])]
     [(''data_dir'', PStr ''in'')] []
   = (Inr [PStr ''fuel_ferc1'', PStr ''ferc_accounts'', PStr ''ferc_depreciation_lines'',
           PStr ''transmission_single_epaipm'', PStr ''regions_entity_epaipm''],
      [PrepDirectories ''pkg'',
       DictDump ''Static FERC Tables'' [''ferc_accounts'', ''ferc_depreciation_lines''],
       DictDump ''FERC 1'' [''fuel_ferc1''],
       DictDump ''Static IPM Tables'' [''regions_entity_epaipm''],
       DictDump ''EPA IPM'' [''transmission_single_epaipm'']])
   \<and> snd (etl_pkg example_collaborators example_constants
     [(''name'', PStr ''pkg''),
      (''datasets'', PList [PDict [(''epaipm'', PDict [])],
                            PDict [(''ferc1'', PDict [(''ferc1_years'', PList [PInt 2018])])]])]
     [(''data_dir'', PStr ''in'')] [])
     \<noteq> snd (etl_pkg example_collaborators example_constants
     [(''name'', PStr ''pkg''),
      (''datasets'', PList [PDict [(''ferc1'', PDict [(''ferc1_years'', PList [PInt 2018])])],
                            PDict [(''epaipm'', PDict [])]])]
     [(''data_dir'', PStr ''in'')] [])"
  by code_simp

end
